theory Spec2Isabelle
  imports Complex_Main
begin

section \<open>JavaScript values and their JSON text\<close>

text \<open>
  The cart manager keeps its line items in \<open>this.items\<close> and writes them to
  \<open>localStorage\<close> as JSON text. The values that occur are numbers, strings, \<open>null\<close>,
  arrays and objects with their properties in insertion order. A JavaScript number is a
  rational here and arithmetic is exact: this is what JavaScript computes on the whole
  numbers of the page (quantities, prices, ids, timestamps), and it lets a call pass a
  fraction such as \<open>0.5\<close>. The rounding of binary fractions, \<open>NaN\<close> and the infinities are
  left out.
\<close>

datatype js_value =
    JNull
  | JBool bool
  | JNum rat
  | JStr string
  | JArr "js_value list"
  | JObj "(string \<times> js_value) list"

text \<open>
  \<open>Number.prototype.toString\<close>: plain decimal digits for a whole number; for a fraction
  the digits of its decimal expansion, which is what JavaScript prints when the expansion is
  short (\<open>0.5\<close>, \<open>2.25\<close>); at most twenty digits are written after the point.
  \<open>toFixed(0)\<close> rounds to the nearest whole number, a half away from zero.
\<close>

definition digit_char :: "nat \<Rightarrow> char" where
  "digit_char d = ''0123456789abcdef'' ! d"

function nat_toString :: "nat \<Rightarrow> string" where
  "nat_toString n = (if n < 10 then [digit_char n] else nat_toString (n div 10) @ [digit_char (n mod 10)])"
  by pat_completeness auto
termination
  by (relation "measure (\<lambda>n. n)") auto

declare nat_toString.simps [simp del]

fun fraction_digits :: "nat \<Rightarrow> rat \<Rightarrow> string" where
  "fraction_digits 0 r = []"
| "fraction_digits (Suc k) r =
     (if r = 0 then []
      else digit_char (nat \<lfloor>10 * r\<rfloor>) # fraction_digits k (10 * r - of_int \<lfloor>10 * r\<rfloor>))"

definition unsigned_toString :: "rat \<Rightarrow> string" where
  "unsigned_toString r =
     nat_toString (nat \<lfloor>r\<rfloor>) @
     (if r = of_int \<lfloor>r\<rfloor> then [] else ''.'' @ fraction_digits 20 (r - of_int \<lfloor>r\<rfloor>))"

definition number_toString :: "rat \<Rightarrow> string" where
  "number_toString r = (if r < 0 then CHR ''-'' # unsigned_toString (- r) else unsigned_toString r)"

definition toFixed0 :: "rat \<Rightarrow> string" where
  "toFixed0 r = (if r < 0 then CHR ''-'' # nat_toString (nat (round (- r))) else nat_toString (nat (round r)))"

text \<open>
  \<open>JSON.stringify\<close>: a string is quoted, with the quotation mark, the backslash and the
  control characters escaped; arrays and objects are written without white space.
\<close>

definition quote_char :: "char \<Rightarrow> string" where
  "quote_char c =
     (if c = CHR 0x22 then [CHR 0x5C, CHR 0x22]
      else if c = CHR 0x5C then [CHR 0x5C, CHR 0x5C]
      else if c = CHR 0x08 then [CHR 0x5C, CHR ''b'']
      else if c = CHR 0x0C then [CHR 0x5C, CHR ''f'']
      else if c = CHR 0x0A then [CHR 0x5C, CHR ''n'']
      else if c = CHR 0x0D then [CHR 0x5C, CHR ''r'']
      else if c = CHR 0x09 then [CHR 0x5C, CHR ''t'']
      else if (of_char c :: nat) < 0x20
        then [CHR 0x5C, CHR ''u'', CHR ''0'', CHR ''0'',
              digit_char (of_char c div 16), digit_char (of_char c mod 16)]
      else [c])"

definition quote_string :: "string \<Rightarrow> string" where
  "quote_string s = [CHR 0x22] @ concat (map quote_char s) @ [CHR 0x22]"

fun join_comma :: "string list \<Rightarrow> string" where
  "join_comma [] = []"
| "join_comma [x] = x"
| "join_comma (x # y # ys) = x @ '','' @ join_comma (y # ys)"

fun JSON_stringify :: "js_value \<Rightarrow> string" where
  "JSON_stringify JNull = ''null''"
| "JSON_stringify (JBool b) = (if b then ''true'' else ''false'')"
| "JSON_stringify (JNum n) = number_toString n"
| "JSON_stringify (JStr s) = quote_string s"
| "JSON_stringify (JArr vs) = ''['' @ join_comma (map JSON_stringify vs) @ '']''"
| "JSON_stringify (JObj kvs) =
     ''{'' @ join_comma (map (\<lambda>kv. quote_string (fst kv) @ '':'' @ JSON_stringify (snd kv)) kvs) @ ''}''"

section \<open>Products, line items and the cart manager\<close>

text \<open>
  A product id is a number in the built-in catalogue and a UUID string when the catalogue
  comes from the database; \<open>===\<close> never identifies a number with a string.
\<close>

datatype product_id = IdNum int | IdStr string

record product =
  p_id :: product_id
  p_name :: string
  p_price :: rat
  p_image_url :: string
  p_material :: string

text \<open>The object that \<open>addItem\<close> pushes; \<open>size\<close> is a size label or \<open>null\<close>.\<close>

record line_item =
  item_id :: product_id
  name :: string
  price :: rat
  image_url :: string
  material :: string
  item_size :: "string option"
  quantity :: rat

definition js_of_id :: "product_id \<Rightarrow> js_value" where
  "js_of_id i = (case i of IdNum n \<Rightarrow> JNum (of_int n) | IdStr s \<Rightarrow> JStr s)"

definition js_of_size :: "string option \<Rightarrow> js_value" where
  "js_of_size z = (case z of None \<Rightarrow> JNull | Some s \<Rightarrow> JStr s)"

definition js_of_item :: "line_item \<Rightarrow> js_value" where
  "js_of_item it =
     JObj [(''id'', js_of_id (item_id it)), (''name'', JStr (name it)),
           (''price'', JNum (price it)), (''image_url'', JStr (image_url it)),
           (''material'', JStr (material it)), (''size'', js_of_size (item_size it)),
           (''quantity'', JNum (quantity it))]"

definition js_of_items :: "line_item list \<Rightarrow> js_value" where
  "js_of_items xs = JArr (map js_of_item xs)"

section \<open>The page: cart manager, storage, checkout overlay, order sink\<close>

text \<open>The values typed into the checkout form (\<open>customer\<close> in the payment handlers).\<close>

record customer_info =
  email :: string
  full_name :: string
  address :: string
  city :: string
  zip :: string
  country :: string

text \<open>The card inputs, which only the form of the simulated payment has.\<close>

record card_inputs =
  card_number :: string
  card_expiry :: string
  card_cvc :: string

text \<open>
  The checkout overlay built by \<open>showCheckoutModal\<close>. While it shows the form it holds the
  order summary rendered into its markup (one row per line item, then the total), the
  values of the form's inputs, whether the email input has been locked (\<open>readOnly\<close>) by the
  profile pre-fill, the card inputs when the form has them, and the submit button's
  \<open>disabled\<close> flag. On success the handlers replace the content by a screen showing the
  order id and the email address.
\<close>

record checkout_form =
  summary :: "(string \<times> string) list"
  summary_total :: string
  inputs :: customer_info
  email_readonly :: bool
  card :: "card_inputs option"
  btn_disabled :: bool

datatype checkout_overlay =
    CheckoutForm checkout_form
  | SuccessScreen string string

text \<open>The payloads handed to \<open>db.createOrder\<close> by the two payment handlers.\<close>

record redirect_order =
  order_id :: string
  customer_email :: string
  amount :: rat
  status :: string
  order_items :: "line_item list"
  shipping_address :: string

record order_item =
  oi_product_id :: product_id
  oi_quantity :: rat
  oi_price :: rat
  oi_size :: "string option"

record paid_order =
  po_status :: string
  po_total_amount :: rat
  po_customer_email :: string
  po_customer_name :: string
  po_created_at :: nat

datatype sink_call =
    CreateOrder redirect_order
  | CreateOrderWithItems paid_order "order_item list"

text \<open>
  An \<open>async\<close> function runs to its next \<open>await\<close> and is resumed later; other events
  can run in between. A frame is a suspended call with the locals it still needs:
  \<open>showCheckoutModal\<close> of the first cart manager awaiting \<open>loadDependencies\<close>, and the
  payment handlers awaiting \<open>db.createOrder\<close> or the simulated delay.
\<close>

datatype frame =
    AwaitDependencies
  | AwaitCreateOrder customer_info string
  | AwaitDelay
  | AwaitCreateOrderWithItems string

text \<open>
  The state of the page as far as the cart manager reads and writes it: \<open>this.items\<close>,
  \<open>localStorage\<close>, the count shown in the cart button, the notifications raised, the
  checkout overlay, the alerts shown, the console messages of the payment handlers, whether
  the global \<open>db\<close> is defined, the suspended calls, the calls of \<open>db.createOrder\<close> made
  so far, oldest first, and the controls at which the browser has reported a constraint
  that does not hold. The source holds two cart managers, one per page variant; their
  ledger operations are the same text, and one definition stands for both. They differ in
  \<open>loadFromStorage\<close>, in \<open>showCheckoutModal\<close> and in the payment handler.
\<close>

record app =
  items :: "line_item list"
  localStorage :: "string \<rightharpoonup> string"
  badge :: rat
  notifications :: "string list"
  overlay :: "checkout_overlay option"
  alerts :: "string list"
  console :: "string list"
  db_defined :: bool
  suspended :: "frame list"
  sink :: "sink_call list"
  validity_reports :: "string list"

datatype js_error = TypeError | SyntaxError

definition cart_key :: string where
  "cart_key = ''threadheaven_cart''"

definition pending_order_key :: string where
  "pending_order_key = ''threadheaven_pending_order''"

subsection \<open>Cart ledger\<close>

definition getTotal :: "app \<Rightarrow> rat" where
  "getTotal s = foldl (\<lambda>sum item. sum + price item * quantity item) 0 (items s)"

definition getItemCount :: "app \<Rightarrow> rat" where
  "getItemCount s = foldl (\<lambda>sum item. sum + quantity item) 0 (items s)"

text \<open>The cart button is taken to be on the page, so \<open>updateCartUI\<close> always shows the count.\<close>

definition updateCartUI :: "app \<Rightarrow> app" where
  "updateCartUI s = s\<lparr>badge := getItemCount s\<rparr>"

definition saveToStorage :: "app \<Rightarrow> app" where
  "saveToStorage s =
     updateCartUI (s\<lparr>localStorage := (localStorage s)(cart_key \<mapsto> JSON_stringify (js_of_items (items s)))\<rparr>)"

definition showNotification :: "string \<Rightarrow> app \<Rightarrow> app" where
  "showNotification message s = s\<lparr>notifications := notifications s @ [message]\<rparr>"

text \<open>\<open>Array.prototype.findIndex\<close>: the first index whose element satisfies the test, or \<open>-1\<close>.\<close>

fun findIndex_from :: "int \<Rightarrow> ('a \<Rightarrow> bool) \<Rightarrow> 'a list \<Rightarrow> int" where
  "findIndex_from i P [] = - 1"
| "findIndex_from i P (x # xs) = (if P x then i else findIndex_from (i + 1) P xs)"

definition findIndex :: "('a \<Rightarrow> bool) \<Rightarrow> 'a list \<Rightarrow> int" where
  "findIndex P xs = findIndex_from 0 P xs"

text \<open>
  \<open>Array.prototype.splice(start, 1)\<close>: a negative start counts from the end and is clamped
  at the first element, a start beyond the end is clamped at the end, where nothing is left
  to delete.
\<close>

definition splice1 :: "int \<Rightarrow> 'a list \<Rightarrow> 'a list" where
  "splice1 start xs =
     (let len = int (length xs);
          actualStart = (if start < 0 then max (len + start) 0 else min start len)
      in take (nat actualStart) xs @ drop (nat actualStart + 1) xs)"

definition addItem :: "product \<Rightarrow> rat \<Rightarrow> string option \<Rightarrow> app \<Rightarrow> app" where
  "addItem product qty sz s =
     (let existingIndex = findIndex (\<lambda>item. item_id item = p_id product \<and> item_size item = sz) (items s);
          s1 = (if existingIndex > - 1
                then s\<lparr>items := (items s)[nat existingIndex :=
                        (items s ! nat existingIndex)
                          \<lparr>quantity := quantity (items s ! nat existingIndex) + qty\<rparr>]\<rparr>
                else s\<lparr>items := items s @
                        [\<lparr>item_id = p_id product, name = p_name product, price = p_price product,
                          image_url = p_image_url product, material = p_material product,
                          item_size = sz, quantity = qty\<rparr>]\<rparr>)
      in showNotification (p_name product @ '' added to cart!'') (saveToStorage s1))"

definition removeItem :: "int \<Rightarrow> app \<Rightarrow> app" where
  "removeItem index s = saveToStorage (s\<lparr>items := splice1 index (items s)\<rparr>)"

text \<open>
  \<open>updateQuantity\<close> tests \<open>quantity <= 0\<close> and nothing else, so any other number is
  stored. \<open>this.items[index].quantity = quantity\<close> raises a TypeError when there is no
  element at \<open>index\<close>; nothing has been changed by then.
\<close>

definition updateQuantity :: "int \<Rightarrow> rat \<Rightarrow> app \<Rightarrow> js_error + app" where
  "updateQuantity index qty s =
     (if qty \<le> 0 then Inr (removeItem index s)
      else if 0 \<le> index \<and> index < int (length (items s))
        then Inr (saveToStorage
               (s\<lparr>items := (items s)[nat index := (items s ! nat index)\<lparr>quantity := qty\<rparr>]\<rparr>))
      else Inl TypeError)"

definition clear :: "app \<Rightarrow> app" where
  "clear s = saveToStorage (s\<lparr>items := []\<rparr>)"

text \<open>
  The four mutating operations as data, to speak of sequences of calls. An exception
  (only \<open>updateQuantity\<close> can raise one) ends the call and leaves the state as it was.
\<close>

datatype cart_op =
    AddItem product rat "string option"
  | RemoveItem int
  | UpdateQuantity int rat
  | Clear

fun apply_op :: "cart_op \<Rightarrow> app \<Rightarrow> app" where
  "apply_op (AddItem product qty sz) s = addItem product qty sz s"
| "apply_op (RemoveItem index) s = removeItem index s"
| "apply_op (UpdateQuantity index qty) s =
     (case updateQuantity index qty s of Inl e \<Rightarrow> s | Inr s' \<Rightarrow> s')"
| "apply_op Clear s = clear s"

definition run_ops :: "cart_op list \<Rightarrow> app \<Rightarrow> app" where
  "run_ops ops s = fold apply_op ops s"

subsection \<open>Loading the persisted cart\<close>

text \<open>
  \<open>JSON.parse\<close> belongs to the platform; \<open>loadFromStorage\<close> takes it as the argument
  \<open>parse\<close>, which gives \<open>None\<close> where \<open>JSON.parse\<close> throws a SyntaxError. The value of
  \<open>this.items\<close> is whatever was parsed, so it is a \<open>js_value\<close> here. The first cart
  manager logs \<open>this.items.length\<close> inside the \<open>try\<close> block, which raises a TypeError on
  \<open>null\<close>; the second one has no such line. The empty string is falsy, like the absent
  key's \<open>null\<close>.
\<close>

definition try_parse_logged :: "(string \<Rightarrow> js_value option) \<Rightarrow> string \<Rightarrow> js_error + js_value" where
  "try_parse_logged parse saved =
     (case parse saved of
        None \<Rightarrow> Inl SyntaxError
      | Some v \<Rightarrow> (if v = JNull then Inl TypeError else Inr v))"

definition try_parse :: "(string \<Rightarrow> js_value option) \<Rightarrow> string \<Rightarrow> js_error + js_value" where
  "try_parse parse saved = (case parse saved of None \<Rightarrow> Inl SyntaxError | Some v \<Rightarrow> Inr v)"

definition loadFromStorage_with ::
  "(string \<Rightarrow> js_error + js_value) \<Rightarrow> (string \<rightharpoonup> string) \<Rightarrow> js_value \<Rightarrow> js_error + js_value" where
  "loadFromStorage_with try_block store this_items =
     (case store cart_key of
        None \<Rightarrow> Inr this_items
      | Some saved \<Rightarrow>
          (if saved = [] then Inr this_items
           else (case try_block saved of Inl e \<Rightarrow> Inr (JArr []) | Inr v \<Rightarrow> Inr v)))"

definition loadFromStorage ::
  "(string \<Rightarrow> js_value option) \<Rightarrow> (string \<rightharpoonup> string) \<Rightarrow> js_value \<Rightarrow> js_error + js_value" where
  "loadFromStorage parse = loadFromStorage_with (try_parse_logged parse)"

definition loadFromStorage_unlogged ::
  "(string \<Rightarrow> js_value option) \<Rightarrow> (string \<rightharpoonup> string) \<Rightarrow> js_value \<Rightarrow> js_error + js_value" where
  "loadFromStorage_unlogged parse = loadFromStorage_with (try_parse parse)"

text \<open>The constructors: \<open>this.items = []; this.loadFromStorage()\<close>.\<close>

definition new_CartManager :: "(string \<Rightarrow> js_value option) \<Rightarrow> (string \<rightharpoonup> string) \<Rightarrow> js_error + js_value" where
  "new_CartManager parse store = loadFromStorage parse store (JArr [])"

definition new_CartManager_unlogged ::
  "(string \<Rightarrow> js_value option) \<Rightarrow> (string \<rightharpoonup> string) \<Rightarrow> js_error + js_value" where
  "new_CartManager_unlogged parse store = loadFromStorage_unlogged parse store (JArr [])"

text \<open>
  A parser for a fragment of JSON, to run the loader on concrete text: white space, the three
  literals, whole numbers without fraction or exponent, strings without escapes, arrays and
  objects (a repeated key replaces the earlier value). Text outside the fragment is
  rejected, so the parser stands for \<open>JSON.parse\<close> on texts of the fragment only. The
  recursion is bounded by a fuel of twice the length of the text and two more.
\<close>

definition is_ws :: "char \<Rightarrow> bool" where
  "is_ws c = (c = CHR 0x20 \<or> c = CHR 0x09 \<or> c = CHR 0x0A \<or> c = CHR 0x0D)"

definition is_digit :: "char \<Rightarrow> bool" where
  "is_digit c = (48 \<le> (of_char c :: nat) \<and> (of_char c :: nat) \<le> 57)"

definition digit_val :: "char \<Rightarrow> nat" where
  "digit_val c = of_char c - 48"

fun parse_digits :: "nat \<Rightarrow> string \<Rightarrow> nat \<times> string" where
  "parse_digits acc [] = (acc, [])"
| "parse_digits acc (c # cs) =
     (if is_digit c then parse_digits (10 * acc + digit_val c) cs else (acc, c # cs))"

definition parse_unsigned :: "string \<Rightarrow> (nat \<times> string) option" where
  "parse_unsigned s =
     (case s of
        [] \<Rightarrow> None
      | c # cs \<Rightarrow>
          (if c = CHR ''0'' then
             (case cs of [] \<Rightarrow> Some (0, []) | d # ds \<Rightarrow> if is_digit d then None else Some (0, cs))
           else if is_digit c then Some (parse_digits 0 s)
           else None))"

definition parse_number :: "string \<Rightarrow> (int \<times> string) option" where
  "parse_number s =
     (case s of
        [] \<Rightarrow> None
      | c # cs \<Rightarrow>
          (if c = CHR ''-''
           then map_option (\<lambda>(n, r). (- int n, r)) (parse_unsigned cs)
           else map_option (\<lambda>(n, r). (int n, r)) (parse_unsigned s)))"

fun parse_string :: "string \<Rightarrow> string \<Rightarrow> (string \<times> string) option" where
  "parse_string acc [] = None"
| "parse_string acc (c # cs) =
     (if c = CHR 0x22 then Some (acc, cs)
      else if c = CHR 0x5C \<or> (of_char c :: nat) < 0x20 then None
      else parse_string (acc @ [c]) cs)"

fun set_prop :: "string \<Rightarrow> js_value \<Rightarrow> (string \<times> js_value) list \<Rightarrow> (string \<times> js_value) list" where
  "set_prop k v [] = [(k, v)]"
| "set_prop k v ((k', v') # kvs) = (if k = k' then (k, v) # kvs else (k', v') # set_prop k v kvs)"

fun parse_value :: "nat \<Rightarrow> string \<Rightarrow> (js_value \<times> string) option"
  and parse_elements :: "nat \<Rightarrow> js_value list \<Rightarrow> string \<Rightarrow> (js_value \<times> string) option"
  and parse_members :: "nat \<Rightarrow> (string \<times> js_value) list \<Rightarrow> string \<Rightarrow> (js_value \<times> string) option"
where
  "parse_value 0 s = None"
| "parse_value (Suc n) s =
     (case dropWhile is_ws s of
        [] \<Rightarrow> None
      | c # cs \<Rightarrow>
          (if c = CHR ''['' then
             (case dropWhile is_ws cs of
                [] \<Rightarrow> None
              | d # ds \<Rightarrow> if d = CHR '']'' then Some (JArr [], ds) else parse_elements n [] cs)
           else if c = CHR ''{'' then
             (case dropWhile is_ws cs of
                [] \<Rightarrow> None
              | d # ds \<Rightarrow> if d = CHR ''}'' then Some (JObj [], ds) else parse_members n [] cs)
           else if c = CHR 0x22 then map_option (\<lambda>(str, r). (JStr str, r)) (parse_string [] cs)
           else if c = CHR ''-'' \<or> is_digit c then
             map_option (\<lambda>(i, r). (JNum (of_int i), r)) (parse_number (c # cs))
           else if take 4 (c # cs) = ''null'' then Some (JNull, drop 4 (c # cs))
           else if take 4 (c # cs) = ''true'' then Some (JBool True, drop 4 (c # cs))
           else if take 5 (c # cs) = ''false'' then Some (JBool False, drop 5 (c # cs))
           else None))"
| "parse_elements 0 acc s = None"
| "parse_elements (Suc n) acc s =
     (case parse_value n s of
        None \<Rightarrow> None
      | Some (v, r) \<Rightarrow>
          (case dropWhile is_ws r of
             [] \<Rightarrow> None
           | c # cs \<Rightarrow>
               if c = CHR '','' then parse_elements n (acc @ [v]) cs
               else if c = CHR '']'' then Some (JArr (acc @ [v]), cs)
               else None))"
| "parse_members 0 acc s = None"
| "parse_members (Suc n) acc s =
     (case dropWhile is_ws s of
        [] \<Rightarrow> None
      | q # qs \<Rightarrow>
          if q \<noteq> CHR 0x22 then None
          else
            (case parse_string [] qs of
               None \<Rightarrow> None
             | Some (k, r) \<Rightarrow>
                 (case dropWhile is_ws r of
                    [] \<Rightarrow> None
                  | c # cs \<Rightarrow>
                      if c \<noteq> CHR '':'' then None
                      else
                        (case parse_value n cs of
                           None \<Rightarrow> None
                         | Some (v, r') \<Rightarrow>
                             (case dropWhile is_ws r' of
                                [] \<Rightarrow> None
                              | e # es \<Rightarrow>
                                  if e = CHR '','' then parse_members n (set_prop k v acc) es
                                  else if e = CHR ''}'' then Some (JObj (set_prop k v acc), es)
                                  else None)))))"

definition JSON_parse :: "string \<Rightarrow> js_value option" where
  "JSON_parse s =
     (case parse_value (2 * length s + 2) s of
        None \<Rightarrow> None
      | Some (v, r) \<Rightarrow> if dropWhile is_ws r = [] then Some v else None)"

subsection \<open>Checkout\<close>

text \<open>
  \<open>checkout\<close> is the same text in both cart managers, and so is the order summary that
  \<open>showCheckoutModal\<close> renders: markup computed from \<open>this.items\<close> when the overlay is
  built. Nothing but this markup is kept of the cart at that moment. In the first cart
  manager \<open>showCheckoutModal\<close> is \<open>async\<close> and awaits \<open>loadDependencies\<close> first: \<open>checkout\<close>
  returns with that call suspended, and the overlay is built when the call is resumed, from
  \<open>this.items\<close> as they are then. (When the two scripts are on the page already, the call is
  resumed before any other event.) In the second cart manager \<open>showCheckoutModal\<close> builds
  the overlay before \<open>checkout\<close> returns, and its form has the card inputs.
\<close>

definition render_row :: "line_item \<Rightarrow> string \<times> string" where
  "render_row item =
     (name item @ '' '' @
        (case item_size item of None \<Rightarrow> [] | Some z \<Rightarrow> if z = [] then [] else ''('' @ z @ '')'') @
        '' x'' @ number_toString (quantity item),
      ''$'' @ toFixed0 (price item * quantity item))"

definition empty_fields :: customer_info where
  "empty_fields = \<lparr>email = [], full_name = [], address = [], city = [], zip = [], country = []\<rparr>"

definition empty_card :: card_inputs where
  "empty_card = \<lparr>card_number = [], card_expiry = [], card_cvc = []\<rparr>"

definition checkout_markup :: "card_inputs option \<Rightarrow> app \<Rightarrow> checkout_form" where
  "checkout_markup k s =
     \<lparr>summary = map render_row (items s),
      summary_total = ''$'' @ toFixed0 (getTotal s),
      inputs = empty_fields,
      email_readonly = False,
      card = k,
      btn_disabled = False\<rparr>"

definition showCheckoutModal :: "app \<Rightarrow> app" where
  "showCheckoutModal s = s\<lparr>suspended := suspended s @ [AwaitDependencies]\<rparr>"

definition showCheckoutModal_resume :: "app \<Rightarrow> app" where
  "showCheckoutModal_resume s =
     (if AwaitDependencies \<in> set (suspended s)
      then s\<lparr>suspended := remove1 AwaitDependencies (suspended s),
             overlay := Some (CheckoutForm (checkout_markup None s))\<rparr>
      else s)"

definition checkout :: "app \<Rightarrow> app" where
  "checkout s = (if length (items s) = 0 then s else showCheckoutModal s)"

definition showCheckoutModal_sync :: "app \<Rightarrow> app" where
  "showCheckoutModal_sync s = s\<lparr>overlay := Some (CheckoutForm (checkout_markup (Some empty_card) s))\<rparr>"

definition checkout_sync :: "app \<Rightarrow> app" where
  "checkout_sync s = (if length (items s) = 0 then s else showCheckoutModal_sync s)"

text \<open>
  The user types into the form's inputs; an input that is \<open>readOnly\<close> keeps its value. The
  inputs stay editable while a payment handler runs: the handlers disable the button only.
\<close>

definition fill_form :: "customer_info \<Rightarrow> app \<Rightarrow> app" where
  "fill_form c s =
     (case overlay s of
        Some (CheckoutForm f) \<Rightarrow>
          s\<lparr>overlay := Some (CheckoutForm
               (f\<lparr>inputs := (if email_readonly f then c\<lparr>email := email (inputs f)\<rparr> else c)\<rparr>))\<rparr>
      | _ \<Rightarrow> s)"

definition fill_card :: "card_inputs \<Rightarrow> app \<Rightarrow> app" where
  "fill_card k s =
     (case overlay s of
        Some (CheckoutForm f) \<Rightarrow>
          s\<lparr>overlay := Some (CheckoutForm (f\<lparr>card := (case card f of None \<Rightarrow> None | Some k' \<Rightarrow> Some k)\<rparr>))\<rparr>
      | _ \<Rightarrow> s)"

text \<open>
  The profile pre-fill of the first cart manager, run when \<open>db.getUserProfile()\<close> has
  answered: every non-empty profile value replaces the value of its input, and the email
  input is then locked.
\<close>

definition prefill_profile :: "customer_info option \<Rightarrow> app \<Rightarrow> app" where
  "prefill_profile profile s =
     (if \<not> db_defined s then s
      else case profile of
        None \<Rightarrow> s
      | Some p \<Rightarrow>
          (case overlay s of
             Some (CheckoutForm f) \<Rightarrow>
               s\<lparr>overlay := Some (CheckoutForm
                    (f\<lparr>inputs :=
                         \<lparr>email = (if email p \<noteq> [] then email p else email (inputs f)),
                          full_name = (if full_name p \<noteq> [] then full_name p else full_name (inputs f)),
                          address = (if address p \<noteq> [] then address p else address (inputs f)),
                          city = (if city p \<noteq> [] then city p else city (inputs f)),
                          zip = (if zip p \<noteq> [] then zip p else zip (inputs f)),
                          country = (if country p \<noteq> [] then country p else country (inputs f))\<rparr>,
                       email_readonly := (email_readonly f \<or> email p \<noteq> [])\<rparr>))\<rparr>
           | _ \<Rightarrow> s))"

definition js_of_customer :: "customer_info \<Rightarrow> js_value" where
  "js_of_customer c =
     JObj [(''email'', JStr (email c)), (''name'', JStr (full_name c)),
           (''address'', JStr (address c)), (''city'', JStr (city c)),
           (''zip'', JStr (zip c)), (''country'', JStr (country c))]"

definition slice_last :: "nat \<Rightarrow> string \<Rightarrow> string" where
  "slice_last n str = drop (length str - n) str"

subsubsection \<open>The handler that hands off to the hosted payment page\<close>

text \<open>The \<open>catch\<close> block of \<open>processPayPalCheckout\<close>.\<close>

definition catch_checkout_error :: "app \<Rightarrow> app" where
  "catch_checkout_error s =
     (let s1 = s\<lparr>console := console s @ [''Checkout error:'']\<rparr>;
          s2 = (case overlay s1 of
                  Some (CheckoutForm f) \<Rightarrow> s1\<lparr>overlay := Some (CheckoutForm (f\<lparr>btn_disabled := False\<rparr>))\<rparr>
                | _ \<Rightarrow> s1)
      in s2\<lparr>alerts := alerts s2 @ [''There was an error processing your order. Please try again.'']\<rparr>)"

text \<open>
  \<open>processPayPalCheckout\<close> up to its \<open>await db.createOrder(...)\<close>. The arguments are what
  the two calls of \<open>Date.now()\<close> and \<open>Math.floor(Math.random() * 1000)\<close> return. The
  pending order and the order are built from \<open>this.items\<close> and \<open>this.getTotal()\<close> as
  they are when the handler runs; the payload recorded in \<open>sink\<close> is its value at the call.
\<close>

definition processPayPalCheckout :: "nat \<Rightarrow> nat \<Rightarrow> nat \<Rightarrow> app \<Rightarrow> app" where
  "processPayPalCheckout timestamp now rnd s =
     (case overlay s of
        Some (CheckoutForm f) \<Rightarrow>
          (let customer = inputs f in
           if email customer = [] \<or> CHR ''@'' \<notin> set (email customer)
           then s\<lparr>alerts := alerts s @ [''Please enter a valid email address'']\<rparr>
           else
             (let s1 = s\<lparr>overlay := Some (CheckoutForm (f\<lparr>btn_disabled := True\<rparr>))\<rparr>;
                  pendingOrder = JObj [(''customer'', js_of_customer customer),
                                       (''items'', js_of_items (items s1)),
                                       (''total'', JNum (getTotal s1)),
                                       (''timestamp'', JNum (of_nat timestamp))];
                  s2 = s1\<lparr>localStorage := (localStorage s1)(pending_order_key \<mapsto> JSON_stringify pendingOrder)\<rparr>
              in if \<not> db_defined s2 then catch_checkout_error s2
                 else
                   (let orderId = ''ORD-'' @ slice_last 6 (nat_toString now) @ nat_toString rnd
                    in s2\<lparr>sink := sink s2 @
                             [CreateOrder
                                \<lparr>order_id = orderId,
                                 customer_email = email customer,
                                 amount = getTotal s2,
                                 status = ''pending'',
                                 order_items = items s2,
                                 shipping_address = address customer @ '', '' @ city customer @ '', '' @
                                                    zip customer @ '', '' @ country customer\<rparr>],
                           suspended := suspended s2 @ [AwaitCreateOrder customer orderId]\<rparr>)))
      | _ \<Rightarrow> s)"

text \<open>
  The rest of \<open>processPayPalCheckout\<close>, run when the promise of \<open>db.createOrder\<close> settles:
  fulfilled (\<open>accepted\<close>) or rejected.
\<close>

definition processPayPalCheckout_resume :: "frame \<Rightarrow> bool \<Rightarrow> app \<Rightarrow> app" where
  "processPayPalCheckout_resume fr accepted s =
     (case fr of
        AwaitCreateOrder customer orderId \<Rightarrow>
          (if fr \<in> set (suspended s) then
             (let s1 = s\<lparr>suspended := remove1 fr (suspended s)\<rparr> in
              if accepted then
                (let s2 = clear (s1\<lparr>console := console s1 @ [''Order created: '' @ orderId]\<rparr>)
                 in s2\<lparr>overlay := Some (SuccessScreen orderId (email customer))\<rparr>)
              else catch_checkout_error s1)
           else s)
      | _ \<Rightarrow> s)"

text \<open>
  The form's \<open>submit\<close> listener, for a \<open>submit\<close> event that is raised. The browser
  raises none while the form's submit button is disabled, and none when the form is no
  longer there. Whether a click on the button raises the event is decided by the browser's
  constraint validation, which \<open>click_submit\<close> below adds.
\<close>

definition submit_checkout_form :: "nat \<Rightarrow> nat \<Rightarrow> nat \<Rightarrow> app \<Rightarrow> app" where
  "submit_checkout_form timestamp now rnd s =
     (case overlay s of
        Some (CheckoutForm f) \<Rightarrow> if btn_disabled f then s else processPayPalCheckout timestamp now rnd s
      | _ \<Rightarrow> s)"

subsubsection \<open>The handler that simulates the payment\<close>

text \<open>
  \<open>processPayment\<close> has two \<open>await\<close>s: the simulated delay and \<open>db.createOrder\<close>. It
  reads the email and the name from the form, and the cart, only when the delay has elapsed.
  An exception of \<open>db.createOrder\<close> (or of reading an undefined \<open>db\<close>) is caught and
  logged, and the handler goes on to the success screen.
\<close>

definition processPayment :: "app \<Rightarrow> app" where
  "processPayment s =
     (case overlay s of
        Some (CheckoutForm f) \<Rightarrow>
          s\<lparr>overlay := Some (CheckoutForm (f\<lparr>btn_disabled := True\<rparr>)),
            suspended := suspended s @ [AwaitDelay]\<rparr>
      | _ \<Rightarrow> s)"

definition processPayment_finish :: "nat \<Rightarrow> string \<Rightarrow> app \<Rightarrow> app" where
  "processPayment_finish now email' s =
     clear (s\<lparr>overlay := Some (SuccessScreen (''TH-'' @ slice_last 8 (nat_toString now)) email')\<rparr>)"

definition processPayment_after_delay :: "nat \<Rightarrow> nat \<Rightarrow> app \<Rightarrow> app" where
  "processPayment_after_delay created now s =
     (if AwaitDelay \<in> set (suspended s) then
        (let s1 = s\<lparr>suspended := remove1 AwaitDelay (suspended s)\<rparr> in
         case overlay s1 of
           Some (CheckoutForm f) \<Rightarrow>
             (let email' = email (inputs f);
                  name' = full_name (inputs f);
                  order = \<lparr>po_status = ''paid'', po_total_amount = getTotal s1,
                           po_customer_email = email', po_customer_name = name',
                           po_created_at = created\<rparr>;
                  orderItems = map (\<lambda>item. \<lparr>oi_product_id = item_id item, oi_quantity = quantity item,
                                               oi_price = price item, oi_size = item_size item\<rparr>) (items s1)
              in if db_defined s1
                 then s1\<lparr>sink := sink s1 @ [CreateOrderWithItems order orderItems],
                         suspended := suspended s1 @ [AwaitCreateOrderWithItems email']\<rparr>
                 else processPayment_finish now email'
                        (s1\<lparr>console := console s1 @ [''Could not save order to database:'']\<rparr>))
         | _ \<Rightarrow> s1)
      else s)"

definition processPayment_resume :: "frame \<Rightarrow> bool \<Rightarrow> nat \<Rightarrow> app \<Rightarrow> app" where
  "processPayment_resume fr accepted now s =
     (case fr of
        AwaitCreateOrderWithItems email' \<Rightarrow>
          (if fr \<in> set (suspended s) then
             (let s1 = s\<lparr>suspended := remove1 fr (suspended s)\<rparr>;
                  s2 = (if accepted then s1
                        else s1\<lparr>console := console s1 @ [''Could not save order to database:'']\<rparr>)
              in processPayment_finish now email' s2)
           else s)
      | _ \<Rightarrow> s)"

definition submit_payment_form :: "app \<Rightarrow> app" where
  "submit_payment_form s =
     (case overlay s of
        Some (CheckoutForm f) \<Rightarrow> if btn_disabled f then s else processPayment s
      | _ \<Rightarrow> s)"

subsubsection \<open>A click on the submit button\<close>

text \<open>
  Both forms declare their inputs \<open>required\<close> and the email input \<open>type="email"\<close>. On a click
  on the submit button the browser first validates these constraints, as the HTML standard
  defines them: a required input must not be empty, and the value of an email input must be
  a valid e-mail address, that is one or more characters of \<open>atext\<close> or dots, an \<open>@\<close>, and
  labels of letters, digits and inner hyphens, at most 63 characters each, separated by
  dots. A \<open>readOnly\<close> input is barred from validation. When a constraint does not hold, the
  browser reports it at the first such control and raises no \<open>submit\<close> event; otherwise the
  event reaches the form's listener.
\<close>

definition is_alnum :: "char \<Rightarrow> bool" where
  "is_alnum c =
     ((48 \<le> (of_char c :: nat) \<and> (of_char c :: nat) \<le> 57) \<or>
      (65 \<le> (of_char c :: nat) \<and> (of_char c :: nat) \<le> 90) \<or>
      (97 \<le> (of_char c :: nat) \<and> (of_char c :: nat) \<le> 122))"

definition is_atext :: "char \<Rightarrow> bool" where
  "is_atext c =
     (is_alnum c \<or>
      c \<in> set [CHR ''!'', CHR ''#'', CHR ''$'', CHR ''%'', CHR ''&'', CHR 0x27, CHR ''*'', CHR ''+'',
                CHR ''-'', CHR ''/'', CHR ''='', CHR ''?'', CHR ''^'', CHR ''_'', CHR 0x60, CHR ''{'',
                CHR ''|'', CHR ''}'', CHR ''~''])"

definition valid_label :: "string \<Rightarrow> bool" where
  "valid_label l =
     (l \<noteq> [] \<and> length l \<le> 63 \<and> is_alnum (hd l) \<and> is_alnum (last l) \<and>
      list_all (\<lambda>c. is_alnum c \<or> c = CHR ''-'') l)"

fun split_on :: "char \<Rightarrow> string \<Rightarrow> string list" where
  "split_on c [] = [[]]"
| "split_on c (x # xs) =
     (if x = c then [] # split_on c xs
      else (case split_on c xs of [] \<Rightarrow> [[x]] | p # ps \<Rightarrow> (x # p) # ps))"

definition valid_email_address :: "string \<Rightarrow> bool" where
  "valid_email_address e =
     (case split_on (CHR ''@'') e of
        [l, d] \<Rightarrow>
          l \<noteq> [] \<and> list_all (\<lambda>c. is_atext c \<or> c = CHR ''.'') l \<and>
          list_all valid_label (split_on (CHR ''.'') d)
      | _ \<Rightarrow> False)"

text \<open>
  The ids of the controls whose constraints do not hold, in the order of the form: the text
  inputs that both forms have, then the card inputs of the simulated payment.
\<close>

definition invalid_text_inputs :: "bool \<Rightarrow> customer_info \<Rightarrow> string list" where
  "invalid_text_inputs locked c =
     (if full_name c = [] then [''checkout-name''] else []) @
     (if \<not> locked \<and> (email c = [] \<or> \<not> valid_email_address (email c))
      then [''checkout-email''] else []) @
     (if address c = [] then [''checkout-address''] else []) @
     (if city c = [] then [''checkout-city''] else []) @
     (if zip c = [] then [''checkout-zip''] else [])"

definition invalid_card_inputs :: "card_inputs option \<Rightarrow> string list" where
  "invalid_card_inputs k =
     (case k of
        None \<Rightarrow> []
      | Some k' \<Rightarrow>
          (if card_number k' = [] then [''card-number''] else []) @
          (if card_expiry k' = [] then [''card-expiry''] else []) @
          (if card_cvc k' = [] then [''card-cvc''] else []))"

definition invalid_controls :: "checkout_form \<Rightarrow> string list" where
  "invalid_controls f = invalid_text_inputs (email_readonly f) (inputs f) @ invalid_card_inputs (card f)"

definition click_submit :: "(app \<Rightarrow> app) \<Rightarrow> app \<Rightarrow> app" where
  "click_submit listener s =
     (case overlay s of
        Some (CheckoutForm f) \<Rightarrow>
          if btn_disabled f then s
          else if invalid_controls f \<noteq> []
            then s\<lparr>validity_reports := validity_reports s @ take 1 (invalid_controls f)\<rparr>
          else listener s
      | _ \<Rightarrow> s)"

definition click_checkout_submit :: "nat \<Rightarrow> nat \<Rightarrow> nat \<Rightarrow> app \<Rightarrow> app" where
  "click_checkout_submit timestamp now rnd = click_submit (submit_checkout_form timestamp now rnd)"

definition click_payment_submit :: "app \<Rightarrow> app" where
  "click_payment_submit = click_submit submit_payment_form"

subsection \<open>Sequences of calls and example data\<close>

text \<open>A sequence of \<open>addItem(product, quantity, size)\<close> calls, oldest first.\<close>

definition addItems :: "(product \<times> rat \<times> string option) list \<Rightarrow> app \<Rightarrow> app" where
  "addItems calls s = fold (\<lambda>c. addItem (fst c) (fst (snd c)) (snd (snd c))) calls s"

text \<open>The quantities requested for one (product id, size) pair, in call order.\<close>

definition requested :: "product_id \<Rightarrow> string option \<Rightarrow> (product \<times> rat \<times> string option) list \<Rightarrow> rat list" where
  "requested pid sz calls =
     map (\<lambda>c. fst (snd c)) (filter (\<lambda>c. p_id (fst c) = pid \<and> snd (snd c) = sz) calls)"

text \<open>The line items of a cart that belong to one (product id, size) pair.\<close>

definition lines_for :: "product_id \<Rightarrow> string option \<Rightarrow> line_item list \<Rightarrow> line_item list" where
  "lines_for pid sz xs = filter (\<lambda>item. item_id item = pid \<and> item_size item = sz) xs"

text \<open>The invariant of the cart: every line item has a quantity of at least one.\<close>

definition quantities_positive :: "line_item list \<Rightarrow> bool" where
  "quantities_positive xs = list_all (\<lambda>item. 1 \<le> quantity item) xs"

text \<open>A page that has just been loaded with nothing stored, and two catalogue entries.\<close>

definition fresh_page :: app where
  "fresh_page =
     \<lparr>items = [], localStorage = Map.empty, badge = 0, notifications = [], overlay = None,
      alerts = [], console = [], db_defined = True, suspended = [], sink = [],
      validity_reports = []\<rparr>"

definition tech_cargo :: product where
  "tech_cargo = \<lparr>p_id = IdNum 2, p_name = ''Tech Cargo'', p_price = 120,
                  p_image_url = ''assets/pants/pants.png'', p_material = ''NYLON''\<rparr>"

definition boxy_tee :: product where
  "boxy_tee = \<lparr>p_id = IdNum 4, p_name = ''Boxy Tee'', p_price = 55,
                p_image_url = ''assets/pants/pants.png'', p_material = ''COTTON''\<rparr>"

definition jane :: customer_info where
  "jane = \<lparr>email = ''jane@example.org'', full_name = ''Jane Doe'', address = ''1 Main St'',
            city = ''Springfield'', zip = ''12345'', country = ''US''\<rparr>"

text \<open>
  What \<open>findIndex\<close> followed by "update in place, else push" does to a list, as one
  recursion: the first element that satisfies the test is replaced, and when there is none
  the new element is appended.
\<close>

fun update_first :: "('a \<Rightarrow> bool) \<Rightarrow> ('a \<Rightarrow> 'a) \<Rightarrow> 'a \<Rightarrow> 'a list \<Rightarrow> 'a list" where
  "update_first P f n [] = [n]"
| "update_first P f n (x # xs) = (if P x then f x # xs else x # update_first P f n xs)"

text \<open>
  The calls that keep to quantities of at least one: \<open>addItem\<close> asks for at least one
  piece, and \<open>updateQuantity\<close> is given a number that is zero or less (a removal) or at
  least one, as every whole number is.
\<close>

fun admissible :: "cart_op \<Rightarrow> bool" where
  "admissible (AddItem product qty sz) = (1 \<le> qty)"
| "admissible (RemoveItem index) = True"
| "admissible (UpdateQuantity index qty) = (qty \<le> 0 \<or> 1 \<le> qty)"
| "admissible Clear = True"

text \<open>The cart after \<open>addItem(boxyTee, 2, 'M')\<close> and \<open>addItem(techCargo, 1, null)\<close>.\<close>

definition two_line_cart :: app where
  "two_line_cart = addItems [(boxy_tee, 2, Some ''M''), (tech_cargo, 1, None)] fresh_page"

text \<open>
  One submission of the checkout form run to its end with nothing else happening in between:
  the \<open>submit\<close> event and, when the handler has reached \<open>await db.createOrder(...)\<close>, the
  settling of that promise, fulfilled (\<open>accepted\<close>) or rejected. For the simulated payment
  the delay elapses in between.
\<close>

definition redirect_submission :: "nat \<Rightarrow> nat \<Rightarrow> nat \<Rightarrow> bool \<Rightarrow> app \<Rightarrow> app" where
  "redirect_submission timestamp now rnd accepted s =
     (let s1 = submit_checkout_form timestamp now rnd s
      in case suspended s1 of [] \<Rightarrow> s1 | fr # frs \<Rightarrow> processPayPalCheckout_resume fr accepted s1)"

definition simulated_submission :: "nat \<Rightarrow> nat \<Rightarrow> bool \<Rightarrow> app \<Rightarrow> app" where
  "simulated_submission created now accepted s =
     (let s1 = processPayment_after_delay created now (submit_payment_form s)
      in case suspended s1 of [] \<Rightarrow> s1 | fr # frs \<Rightarrow> processPayment_resume fr accepted now s1)"

text \<open>What a payload handed to \<open>db.createOrder\<close> says: its amount, and per line the product, size and quantity.\<close>

fun call_amount :: "sink_call \<Rightarrow> rat" where
  "call_amount (CreateOrder order) = amount order"
| "call_amount (CreateOrderWithItems order orderItems) = po_total_amount order"

fun call_lines :: "sink_call \<Rightarrow> (product_id \<times> string option \<times> rat) list" where
  "call_lines (CreateOrder order) = map (\<lambda>item. (item_id item, item_size item, quantity item)) (order_items order)"
| "call_lines (CreateOrderWithItems order orderItems) =
     map (\<lambda>item. (oi_product_id item, oi_size item, oi_quantity item)) orderItems"

fun call_email :: "sink_call \<Rightarrow> string" where
  "call_email (CreateOrder order) = customer_email order"
| "call_email (CreateOrderWithItems order orderItems) = po_customer_email order"

text \<open>
  The checkout overlay of that cart in the first cart manager, built with no mutation in
  between and filled in; \<open>jane_form\<close> is the form it then holds.
\<close>

definition jane_at_form :: app where
  "jane_at_form = fill_form jane (showCheckoutModal_resume (checkout two_line_cart))"

definition jane_form :: checkout_form where
  "jane_form =
     \<lparr>summary = [(''Boxy Tee (M) x2'', ''$110''), (''Tech Cargo  x1'', ''$120'')],
      summary_total = ''$230'', inputs = jane, email_readonly = False, card = None,
      btn_disabled = False\<rparr>"

text \<open>The same in the second cart manager, with the card inputs filled in as well.\<close>

definition a_card :: card_inputs where
  "a_card = \<lparr>card_number = ''4242 4242 4242 4242'', card_expiry = ''12/30'', card_cvc = ''123''\<rparr>"

definition jane_at_payment_form :: app where
  "jane_at_payment_form = fill_card a_card (fill_form jane (checkout_sync two_line_cart))"

definition jane_payment_form :: checkout_form where
  "jane_payment_form = jane_form\<lparr>card := Some a_card\<rparr>"

text \<open>
  The first cart manager's overlay after the profile pre-fill has locked an email address
  without \<open>@\<close> into the form.
\<close>

definition locked_at_form :: app where
  "locked_at_form =
     prefill_profile (Some (jane\<lparr>email := ''jane.example.org''\<rparr>))
       (showCheckoutModal_resume (checkout two_line_cart))"

section \<open>Basic facts about the cart ledger\<close>

lemma items_updateCartUI [simp]: "items (updateCartUI s) = items s"
  by (simp add: updateCartUI_def)

lemma items_saveToStorage [simp]: "items (saveToStorage s) = items s"
  by (simp add: saveToStorage_def)

lemma items_showNotification [simp]: "items (showNotification m s) = items s"
  by (simp add: showNotification_def)

lemma findIndex_from_bounds:
  "0 \<le> i \<Longrightarrow> findIndex_from i P xs = - 1 \<or> i \<le> findIndex_from i P xs"
proof (induction xs arbitrary: i)
  case Nil
  then show ?case by simp
next
  case (Cons x xs)
  have "0 \<le> i + 1" using Cons.prems by simp
  from Cons.IH [OF this] Cons.prems show ?case by auto
qed

lemma findIndex_from_update_first:
  assumes "0 \<le> i"
  shows "(if findIndex_from i P xs > - 1
          then xs[nat (findIndex_from i P xs - i) := f (xs ! nat (findIndex_from i P xs - i))]
          else xs @ [n])
         = update_first P f n xs"
  using assms
proof (induction xs arbitrary: i)
  case Nil
  then show ?case by simp
next
  case (Cons x xs)
  show ?case
  proof (cases "P x")
    case True
    with Cons.prems show ?thesis by simp
  next
    case False
    let ?r = "findIndex_from (i + 1) P xs"
    have i1: "0 \<le> i + 1" using Cons.prems by simp
    from findIndex_from_bounds [OF i1, of P xs]
    consider "?r = - 1" | "i + 1 \<le> ?r" by blast
    then show ?thesis
    proof cases
      case 1
      with False Cons.IH [OF i1] show ?thesis by simp
    next
      case 2
      then have "nat (?r - i) = Suc (nat (?r - (i + 1)))" using Cons.prems by simp
      with 2 False Cons.IH [OF i1] Cons.prems show ?thesis by simp
    qed
  qed
qed

lemma findIndex_update_first:
  "(if findIndex P xs > - 1 then xs[nat (findIndex P xs) := f (xs ! nat (findIndex P xs))] else xs @ [n])
     = update_first P f n xs"
  using findIndex_from_update_first [of 0 P xs f n] by (simp add: findIndex_def split: if_splits)

lemma items_addItem:
  "items (addItem p q z s) =
     update_first (\<lambda>item. item_id item = p_id p \<and> item_size item = z)
       (\<lambda>item. item\<lparr>quantity := quantity item + q\<rparr>)
       \<lparr>item_id = p_id p, name = p_name p, price = p_price p, image_url = p_image_url p,
        material = p_material p, item_size = z, quantity = q\<rparr>
       (items s)"
  unfolding findIndex_update_first [symmetric]
  by (simp add: addItem_def Let_def)

section \<open>Merging by product and size\<close>

lemma lines_for_update_first_same:
  "item_id n = pid \<Longrightarrow> item_size n = sz \<Longrightarrow>
   lines_for pid sz
     (update_first (\<lambda>item. item_id item = pid \<and> item_size item = sz)
        (\<lambda>item. item\<lparr>quantity := quantity item + q\<rparr>) n xs) =
     (case lines_for pid sz xs of [] \<Rightarrow> [n] | a # r \<Rightarrow> a\<lparr>quantity := quantity a + q\<rparr> # r)"
  by (induction xs) (simp_all add: lines_for_def)

lemma lines_for_update_first_other:
  "\<not> (pid' = pid \<and> sz' = sz) \<Longrightarrow> item_id n = pid' \<Longrightarrow> item_size n = sz' \<Longrightarrow>
   lines_for pid sz
     (update_first (\<lambda>item. item_id item = pid' \<and> item_size item = sz')
        (\<lambda>item. item\<lparr>quantity := quantity item + q\<rparr>) n xs) = lines_for pid sz xs"
  by (induction xs) (auto simp add: lines_for_def)

lemma addItems_snoc:
  "addItems (calls @ [c]) s = addItem (fst c) (fst (snd c)) (snd (snd c)) (addItems calls s)"
  by (simp add: addItems_def)

lemma requested_snoc:
  "requested pid sz (calls @ [c]) =
     (if p_id (fst c) = pid \<and> snd (snd c) = sz then requested pid sz calls @ [fst (snd c)]
      else requested pid sz calls)"
  by (simp add: requested_def)

lemma quantities_after_addItem:
  "map quantity (lines_for pid sz (items (addItem p q z s))) =
     (if p_id p = pid \<and> z = sz
      then (case map quantity (lines_for pid sz (items s)) of [] \<Rightarrow> [q] | a # r \<Rightarrow> (a + q) # r)
      else map quantity (lines_for pid sz (items s)))"
proof (cases "p_id p = pid \<and> z = sz")
  case True
  then have pid: "pid = p_id p" and sz: "sz = z" by simp_all
  show ?thesis
    unfolding pid sz items_addItem
    by (simp add: lines_for_update_first_same split: list.splits)
next
  case False
  then have "lines_for pid sz (items (addItem p q z s)) = lines_for pid sz (items s)"
    unfolding items_addItem
    by (simp add: lines_for_update_first_other)
  with False show ?thesis by auto
qed

text \<open>
  C1. Start from a cart with no line item for the pair (product id, size), the empty cart
  for instance, and run any sequence of \<open>addItem\<close> calls. If none of the calls is for the
  pair, the cart has no line item for it. Otherwise the cart has exactly one line item for
  it, and its quantity is the sum of the quantities that the calls for this pair requested.
  The size \<open>null\<close> is a size like the others, and since the statement holds for every pair,
  calls for the same product with another size feed another line item.
\<close>

theorem addItem_merges_by_product_and_size:
  assumes "lines_for pid sz (items s) = []"
  shows "map quantity (lines_for pid sz (items (addItems calls s))) =
           (if requested pid sz calls = [] then [] else [sum_list (requested pid sz calls)])"
proof (induction calls rule: rev_induct)
  case Nil
  show ?case using assms by (simp add: addItems_def requested_def)
next
  case (snoc c calls)
  then show ?case
    by (simp add: addItems_snoc quantities_after_addItem requested_snoc)
qed

theorem addItem_merges_witness:
  "lines_for (IdNum 4) (Some ''M'') (items fresh_page) = [] \<and>
   map quantity (lines_for (IdNum 4) (Some ''M'')
     (items (addItems [(boxy_tee, 2, Some ''M''), (boxy_tee, 3, Some ''L''), (boxy_tee, 1, Some ''M'')]
        fresh_page))) = [3] \<and>
   map quantity (lines_for (IdNum 4) (Some ''L'')
     (items (addItems [(boxy_tee, 2, Some ''M''), (boxy_tee, 3, Some ''L''), (boxy_tee, 1, Some ''M'')]
        fresh_page))) = [3] \<and>
   map quantity (lines_for (IdNum 4) None
     (items (addItems [(boxy_tee, 2, None), (boxy_tee, 5, None)] fresh_page))) = [7]"
proof -
  have e: "lines_for (IdNum 4) z (items fresh_page) = []" for z
    by (simp add: lines_for_def fresh_page_def)
  show ?thesis
    using addItem_merges_by_product_and_size [OF e, of "Some ''M''"
        "[(boxy_tee, 2, Some ''M''), (boxy_tee, 3, Some ''L''), (boxy_tee, 1, Some ''M'')]"]
      addItem_merges_by_product_and_size [OF e, of "Some ''L''"
        "[(boxy_tee, 2, Some ''M''), (boxy_tee, 3, Some ''L''), (boxy_tee, 1, Some ''M'')]"]
      addItem_merges_by_product_and_size [OF e, of None "[(boxy_tee, 2, None), (boxy_tee, 5, None)]"]
    by (simp add: e requested_def boxy_tee_def)
qed

section \<open>The quantity invariant\<close>

lemma list_all_update_first:
  "list_all Q xs \<Longrightarrow> Q n \<Longrightarrow> (\<And>x. Q x \<Longrightarrow> Q (f x)) \<Longrightarrow> list_all Q (update_first P f n xs)"
  by (induction xs) auto

lemma list_all_splice1: "list_all Q xs \<Longrightarrow> list_all Q (splice1 i xs)"
  by (auto simp add: splice1_def Let_def list_all_iff dest: in_set_takeD in_set_dropD)

lemma quantities_positive_addItem:
  "quantities_positive (items s) \<Longrightarrow> 1 \<le> q \<Longrightarrow> quantities_positive (items (addItem p q z s))"
  unfolding quantities_positive_def items_addItem
  by (rule list_all_update_first) simp_all

lemma quantities_positive_removeItem:
  "quantities_positive (items s) \<Longrightarrow> quantities_positive (items (removeItem i s))"
  by (simp add: quantities_positive_def removeItem_def list_all_splice1)

lemma quantities_positive_updateQuantity:
  assumes pos: "quantities_positive (items s)" and adm: "q \<le> 0 \<or> 1 \<le> q"
    and upd: "updateQuantity i q s = Inr s'"
  shows "quantities_positive (items s')"
proof (cases "q \<le> 0")
  case True
  with pos upd show ?thesis
    by (auto simp add: updateQuantity_def quantities_positive_removeItem)
next
  case False
  with adm have q: "1 \<le> q" by simp
  from False upd have "items s' = (items s)[nat i := (items s ! nat i)\<lparr>quantity := q\<rparr>]"
    by (auto simp add: updateQuantity_def split: if_splits)
  moreover have "list_all (\<lambda>item. 1 \<le> quantity item) ((items s)[nat i := (items s ! nat i)\<lparr>quantity := q\<rparr>])"
    using pos q
    by (auto simp add: quantities_positive_def list_all_iff dest!: set_update_subset_insert [THEN subsetD])
  ultimately show ?thesis by (simp add: quantities_positive_def)
qed

lemma quantities_positive_clear: "quantities_positive (items (clear s))"
  by (simp add: clear_def quantities_positive_def)

lemma quantities_positive_apply_op:
  "quantities_positive (items s) \<Longrightarrow> admissible op \<Longrightarrow> quantities_positive (items (apply_op op s))"
  by (cases op)
     (auto simp add: quantities_positive_addItem quantities_positive_removeItem
        quantities_positive_clear split: sum.splits intro: quantities_positive_updateQuantity)

lemma quantities_positive_run_ops:
  "quantities_positive (items s) \<Longrightarrow> list_all admissible ops \<Longrightarrow>
   quantities_positive (items (run_ops ops s))"
  unfolding run_ops_def
  by (induction ops arbitrary: s) (simp_all add: quantities_positive_apply_op)

text \<open>
  C2, as amended. Take a cart in which every line item has a quantity of at least one (the
  empty cart is one) and run any sequence of \<open>addItem\<close>, \<open>removeItem\<close>, \<open>updateQuantity\<close>
  and \<open>clear\<close> calls in which every \<open>addItem\<close> asks for a quantity of at least one and
  every \<open>updateQuantity\<close> is given a new quantity that is zero or less or at least one.
  Then every line item of the resulting cart has a quantity of at least one. An
  \<open>updateQuantity\<close> with a new quantity of zero or less does what \<open>removeItem\<close> does at that
  index and stores no quantity.
\<close>

theorem quantity_invariant:
  assumes "quantities_positive (items s)" and "list_all admissible ops"
  shows "quantities_positive (items (run_ops ops s)) \<and>
         (q \<le> 0 \<longrightarrow> apply_op (UpdateQuantity i q) s = apply_op (RemoveItem i) s)"
  using assms by (simp add: quantities_positive_run_ops updateQuantity_def)

text \<open>
  Neither operation tests more than that. \<open>addItem\<close> stores the quantity it is given: on
  the empty cart \<open>addItem(boxyTee, 0)\<close> leaves a line item with quantity zero.
  \<open>updateQuantity\<close> stores every number that is not zero or less: after
  \<open>addItem(boxyTee, 1)\<close>, \<open>updateQuantity(0, 0.5)\<close> leaves a line item with quantity one
  half.
\<close>

theorem unchecked_quantities_break_invariant:
  "\<not> quantities_positive (items (run_ops [AddItem boxy_tee 0 None] fresh_page)) \<and>
   map quantity (items (run_ops [AddItem boxy_tee 0 None] fresh_page)) = [0] \<and>
   \<not> quantities_positive (items (run_ops [AddItem boxy_tee 1 None, UpdateQuantity 0 (1 / 2)] fresh_page)) \<and>
   map quantity (items (run_ops [AddItem boxy_tee 1 None, UpdateQuantity 0 (1 / 2)] fresh_page)) = [1 / 2]"
  by (simp add: run_ops_def items_addItem updateQuantity_def fresh_page_def quantities_positive_def
      boxy_tee_def)

lemma items_two_line_cart:
  "items two_line_cart =
    [\<lparr>item_id = IdNum 4, name = ''Boxy Tee'', price = 55, image_url = ''assets/pants/pants.png'',
      material = ''COTTON'', item_size = Some ''M'', quantity = 2\<rparr>,
     \<lparr>item_id = IdNum 2, name = ''Tech Cargo'', price = 120, image_url = ''assets/pants/pants.png'',
      material = ''NYLON'', item_size = None, quantity = 1\<rparr>]"
  by (simp add: two_line_cart_def addItems_def items_addItem fresh_page_def boxy_tee_def tech_cargo_def)

theorem quantity_invariant_witness:
  "quantities_positive (items fresh_page) \<and>
   list_all admissible [AddItem boxy_tee 2 (Some ''M''), AddItem tech_cargo 1 None,
      UpdateQuantity 0 1, UpdateQuantity 1 (5 / 2), UpdateQuantity 0 0, RemoveItem 7, UpdateQuantity 5 3] \<and>
   quantities_positive (items (run_ops [AddItem boxy_tee 2 (Some ''M''), AddItem tech_cargo 1 None,
      UpdateQuantity 0 1, UpdateQuantity 1 (5 / 2), UpdateQuantity 0 0, RemoveItem 7, UpdateQuantity 5 3] fresh_page)) \<and>
   apply_op (UpdateQuantity 0 0) two_line_cart = apply_op (RemoveItem 0) two_line_cart"
proof -
  have a: "quantities_positive (items fresh_page)"
    by (simp add: fresh_page_def quantities_positive_def)
  have b: "list_all admissible [AddItem boxy_tee 2 (Some ''M''), AddItem tech_cargo 1 None,
      UpdateQuantity 0 1, UpdateQuantity 1 (5 / 2), UpdateQuantity 0 0, RemoveItem 7, UpdateQuantity 5 3]"
    by simp
  have c: "quantities_positive (items two_line_cart)"
    by (simp add: items_two_line_cart quantities_positive_def)
  show ?thesis
    using quantity_invariant [OF a b, of 0 0] quantity_invariant [OF c, of "[]" 0 0] a b
    by simp
qed

section \<open>Removing by index\<close>

lemma localStorage_saveToStorage:
  "localStorage (saveToStorage s) = (localStorage s)(cart_key \<mapsto> JSON_stringify (js_of_items (items s)))"
  by (simp add: saveToStorage_def updateCartUI_def)

text \<open>
  C8. For a valid index and a new quantity of zero or less, \<open>updateQuantity\<close> returns
  normally and leaves exactly the state that \<open>removeItem\<close> leaves at that index: the same
  line items, the same stored text, the same everything else.
\<close>

theorem updateQuantity_nonpositive_is_removeItem:
  assumes "0 \<le> i" and "i < int (length (items s))" and "q \<le> 0"
  shows "updateQuantity i q s = Inr (removeItem i s)"
  using assms by (simp add: updateQuantity_def)

theorem updateQuantity_nonpositive_witness:
  "(0::int) \<le> 1 \<and> 1 < int (length (items two_line_cart)) \<and> (0::int) \<le> 0 \<and>
   updateQuantity 1 0 two_line_cart = Inr (removeItem 1 two_line_cart) \<and>
   map name (items (removeItem 1 two_line_cart)) = [''Boxy Tee'']"
proof -
  have l: "1 < int (length (items two_line_cart))"
    by (simp add: items_two_line_cart)
  have "updateQuantity 1 0 two_line_cart = Inr (removeItem 1 two_line_cart)"
    by (rule updateQuantity_nonpositive_is_removeItem [OF _ l]) simp_all
  moreover have "map name (items (removeItem 1 two_line_cart)) = [''Boxy Tee'']"
    by (simp add: removeItem_def items_two_line_cart splice1_def)
  ultimately show ?thesis using l by simp
qed

text \<open>
  C10. With an index at or beyond the number of line items, \<open>removeItem\<close> leaves the line
  items as they are and still writes their JSON text under the cart key. With a negative
  index \<open>-k\<close> it deletes the \<open>k\<close>-th line item counted from the end, the last one being the
  first; when the cart has fewer than \<open>k\<close> line items, \<open>splice\<close> clamps the position and
  the first line item is deleted. In each case the cart that results is written to storage.
\<close>

theorem removeItem_index_outside:
  "(int (length (items s)) \<le> i \<longrightarrow>
      items (removeItem i s) = items s \<and>
      localStorage (removeItem i s) = (localStorage s)(cart_key \<mapsto> JSON_stringify (js_of_items (items s)))) \<and>
   (i < 0 \<and> - int (length (items s)) \<le> i \<longrightarrow>
      items (removeItem i s) =
        take (length (items s) - nat (- i)) (items s) @ drop (length (items s) - nat (- i) + 1) (items s) \<and>
      length (items (removeItem i s)) + 1 = length (items s)) \<and>
   (i < - int (length (items s)) \<longrightarrow> items (removeItem i s) = drop 1 (items s)) \<and>
   (i < 0 \<longrightarrow>
      localStorage (removeItem i s) =
        (localStorage s)(cart_key \<mapsto> JSON_stringify (js_of_items (items (removeItem i s)))))"
proof -
  have n: "nat (int (length (items s)) + i) = length (items s) - nat (- i)" if "i < 0"
    using that by linarith
  show ?thesis
    by (auto simp add: removeItem_def localStorage_saveToStorage splice1_def Let_def n max_def)
qed

theorem removeItem_index_outside_witness:
  "int (length (items two_line_cart)) \<le> 2 \<and>
   items (removeItem 2 two_line_cart) = items two_line_cart \<and>
   localStorage (removeItem 2 fresh_page) cart_key = Some ''[]'' \<and>
   localStorage fresh_page cart_key = None \<and>
   (- 1 :: int) < 0 \<and> - int (length (items two_line_cart)) \<le> - 1 \<and>
   map name (items (removeItem (- 1) two_line_cart)) = [''Boxy Tee''] \<and>
   map name (items (removeItem (- 2) two_line_cart)) = [''Tech Cargo''] \<and>
   - 5 < - int (length (items two_line_cart)) \<and>
   map name (items (removeItem (- 5) two_line_cart)) = [''Tech Cargo'']"
  using removeItem_index_outside [of two_line_cart 2] removeItem_index_outside [of fresh_page 2]
    removeItem_index_outside [of two_line_cart "- 1"] removeItem_index_outside [of two_line_cart "- 2"]
    removeItem_index_outside [of two_line_cart "- 5"]
  by (simp add: items_two_line_cart fresh_page_def js_of_items_def)

section \<open>Checkout\<close>

text \<open>
  C9. In both cart managers \<open>checkout\<close> on a cart with no line items returns at once and
  changes nothing: \<open>showCheckoutModal\<close> is not called, so no overlay is built now or later,
  neither the summary nor the form is shown, no handler is started and nothing is handed to
  \<open>db.createOrder\<close>.
\<close>

theorem checkout_empty_cart_stays_idle:
  assumes "items s = []"
  shows "checkout s = s \<and> checkout_sync s = s"
  using assms by (simp add: checkout_def checkout_sync_def)

theorem checkout_empty_cart_witness:
  "items fresh_page = [] \<and> checkout fresh_page = fresh_page \<and>
   checkout_sync fresh_page = fresh_page \<and>
   overlay (checkout fresh_page) = None \<and> sink (checkout fresh_page) = [] \<and>
   suspended (checkout fresh_page) = [] \<and>
   showCheckoutModal_resume (checkout fresh_page) = fresh_page"
  using checkout_empty_cart_stays_idle [of fresh_page]
  by (simp add: fresh_page_def showCheckoutModal_resume_def)

section \<open>Loading the persisted cart\<close>

text \<open>
  C4, as amended. Whatever is stored under the cart key and whatever \<open>JSON.parse\<close> does
  with it, constructing the cart manager returns normally. With no key, or the empty string,
  the cart is empty. When \<open>JSON.parse\<close> rejects the stored text, the cart is empty and
  the error goes no further. When \<open>JSON.parse\<close> accepts the stored text, \<open>this.items\<close>
  becomes the parsed value as it is, whether or not it is a sequence of line items; the first
  cart manager alone falls back to the empty cart when that value is \<open>null\<close>.
\<close>

theorem loading_recovers_parse_failures:
  "(\<exists>v. new_CartManager parse store = Inr v) \<and>
   (\<exists>v. new_CartManager_unlogged parse store = Inr v) \<and>
   (store cart_key = None \<or> store cart_key = Some [] \<longrightarrow>
      new_CartManager parse store = Inr (JArr []) \<and>
      new_CartManager_unlogged parse store = Inr (JArr [])) \<and>
   (store cart_key = Some saved \<and> parse saved = None \<longrightarrow>
      new_CartManager parse store = Inr (JArr []) \<and>
      new_CartManager_unlogged parse store = Inr (JArr [])) \<and>
   (store cart_key = Some saved \<and> saved \<noteq> [] \<and> parse saved = Some v \<longrightarrow>
      new_CartManager parse store = Inr (if v = JNull then JArr [] else v) \<and>
      new_CartManager_unlogged parse store = Inr v)"
  by (auto simp add: new_CartManager_def new_CartManager_unlogged_def loadFromStorage_def
      loadFromStorage_unlogged_def loadFromStorage_with_def try_parse_def try_parse_logged_def
      split: option.splits sum.splits)

lemma parse_42: "JSON_parse ''42'' = Some (JNum 42)"
  by code_simp

lemma parse_oops: "JSON_parse ''{oops'' = None"
  by code_simp

lemma parse_null: "JSON_parse ''null'' = Some JNull"
  by code_simp

lemma parse_list7: "JSON_parse ''[7]'' = Some (JArr [JNum 7])"
  by code_simp

theorem loading_recovers_witness:
  "JSON_parse ''{oops'' = None \<and>
   new_CartManager JSON_parse [cart_key \<mapsto> ''{oops''] = Inr (JArr []) \<and>
   new_CartManager_unlogged JSON_parse [cart_key \<mapsto> ''{oops''] = Inr (JArr []) \<and>
   new_CartManager JSON_parse Map.empty = Inr (JArr []) \<and>
   new_CartManager_unlogged JSON_parse Map.empty = Inr (JArr []) \<and>
   JSON_parse ''null'' = Some JNull \<and>
   new_CartManager JSON_parse [cart_key \<mapsto> ''null''] = Inr (JArr []) \<and>
   new_CartManager_unlogged JSON_parse [cart_key \<mapsto> ''null''] = Inr JNull"
  using loading_recovers_parse_failures [of JSON_parse "[cart_key \<mapsto> ''{oops'']" "''{oops''" JNull]
    loading_recovers_parse_failures [of JSON_parse Map.empty "[]" JNull]
    loading_recovers_parse_failures [of JSON_parse "[cart_key \<mapsto> ''null'']" "''null''" JNull]
  by (simp add: parse_oops parse_null)

text \<open>
  Stored text that parses but is no sequence of line items is not replaced by the empty
  cart: \<open>42\<close> leaves \<open>this.items\<close> a number, \<open>[7]\<close> an array holding a number.
\<close>

theorem loading_keeps_parsed_non_cart:
  "new_CartManager JSON_parse [cart_key \<mapsto> ''42''] = Inr (JNum 42) \<and>
   new_CartManager_unlogged JSON_parse [cart_key \<mapsto> ''42''] = Inr (JNum 42) \<and>
   new_CartManager JSON_parse [cart_key \<mapsto> ''[7]''] = Inr (JArr [JNum 7]) \<and>
   new_CartManager JSON_parse [cart_key \<mapsto> ''42''] \<noteq> Inr (JArr [])"
  by (simp add: new_CartManager_def new_CartManager_unlogged_def loadFromStorage_def
      loadFromStorage_unlogged_def loadFromStorage_with_def try_parse_def try_parse_logged_def
      parse_42 parse_list7)

section \<open>The checkout handlers\<close>

lemma saveToStorage_rest [simp]:
  "overlay (saveToStorage s) = overlay s" "sink (saveToStorage s) = sink s"
  "suspended (saveToStorage s) = suspended s" "db_defined (saveToStorage s) = db_defined s"
  "alerts (saveToStorage s) = alerts s" "console (saveToStorage s) = console s"
  by (simp_all add: saveToStorage_def updateCartUI_def)

lemma apply_op_rest [simp]:
  "overlay (apply_op op s) = overlay s" "sink (apply_op op s) = sink s"
  "suspended (apply_op op s) = suspended s" "db_defined (apply_op op s) = db_defined s"
  "alerts (apply_op op s) = alerts s" "console (apply_op op s) = console s"
  by (cases op; simp add: addItem_def removeItem_def updateQuantity_def clear_def
        showNotification_def Let_def split: sum.splits)+

lemma run_ops_rest [simp]:
  "overlay (run_ops ms s) = overlay s" "sink (run_ops ms s) = sink s"
  "suspended (run_ops ms s) = suspended s" "db_defined (run_ops ms s) = db_defined s"
  "alerts (run_ops ms s) = alerts s" "console (run_ops ms s) = console s"
  unfolding run_ops_def
  by (induction ms arbitrary: s; simp)+

lemma getTotal_update [simp]:
  "getTotal (s\<lparr>overlay := ov\<rparr>) = getTotal s"
  "getTotal (s\<lparr>localStorage := store\<rparr>) = getTotal s"
  "getTotal (s\<lparr>suspended := frs\<rparr>) = getTotal s"
  by (simp_all add: getTotal_def)

lemma checkout_rest [simp]:
  "items (checkout s) = items s" "sink (checkout s) = sink s" "overlay (checkout s) = overlay s"
  "db_defined (checkout s) = db_defined s" "localStorage (checkout s) = localStorage s"
  "alerts (checkout s) = alerts s"
  by (simp_all add: checkout_def showCheckoutModal_def)

lemma suspended_checkout:
  "items s \<noteq> [] \<Longrightarrow> suspended (checkout s) = suspended s @ [AwaitDependencies]"
  by (simp add: checkout_def showCheckoutModal_def)

lemma showCheckoutModal_resume_rest [simp]:
  "items (showCheckoutModal_resume s) = items s" "sink (showCheckoutModal_resume s) = sink s"
  "db_defined (showCheckoutModal_resume s) = db_defined s"
  "localStorage (showCheckoutModal_resume s) = localStorage s"
  "alerts (showCheckoutModal_resume s) = alerts s"
  by (simp_all add: showCheckoutModal_resume_def)

lemma overlay_showCheckoutModal_resume:
  "AwaitDependencies \<in> set (suspended s) \<Longrightarrow>
   overlay (showCheckoutModal_resume s) = Some (CheckoutForm (checkout_markup None s))"
  by (simp add: showCheckoutModal_resume_def)

lemma checkout_sync_rest [simp]:
  "items (checkout_sync s) = items s" "sink (checkout_sync s) = sink s"
  "suspended (checkout_sync s) = suspended s" "db_defined (checkout_sync s) = db_defined s"
  "localStorage (checkout_sync s) = localStorage s" "alerts (checkout_sync s) = alerts s"
  by (simp_all add: checkout_sync_def showCheckoutModal_sync_def)

lemma overlay_checkout_sync:
  "items s \<noteq> [] \<Longrightarrow>
   overlay (checkout_sync s) = Some (CheckoutForm (checkout_markup (Some empty_card) s))"
  by (simp add: checkout_sync_def showCheckoutModal_sync_def)

lemma fill_form_rest [simp]:
  "items (fill_form c s) = items s" "sink (fill_form c s) = sink s"
  "suspended (fill_form c s) = suspended s" "db_defined (fill_form c s) = db_defined s"
  "localStorage (fill_form c s) = localStorage s" "alerts (fill_form c s) = alerts s"
  by (simp_all add: fill_form_def split: option.splits checkout_overlay.splits)

lemma fill_card_rest [simp]:
  "items (fill_card k s) = items s" "sink (fill_card k s) = sink s"
  "suspended (fill_card k s) = suspended s" "db_defined (fill_card k s) = db_defined s"
  "localStorage (fill_card k s) = localStorage s" "alerts (fill_card k s) = alerts s"
  by (simp_all add: fill_card_def split: option.splits checkout_overlay.splits)

lemma prefill_profile_rest [simp]:
  "items (prefill_profile p s) = items s" "sink (prefill_profile p s) = sink s"
  "suspended (prefill_profile p s) = suspended s" "db_defined (prefill_profile p s) = db_defined s"
  "localStorage (prefill_profile p s) = localStorage s" "alerts (prefill_profile p s) = alerts s"
  by (simp_all add: prefill_profile_def split: option.splits checkout_overlay.splits)

lemma getTotal_fill_form [simp]: "getTotal (fill_form c s) = getTotal s"
  by (simp add: getTotal_def)

lemma overlay_fill_form:
  "overlay s = Some (CheckoutForm f) \<Longrightarrow> \<not> email_readonly f \<Longrightarrow>
   overlay (fill_form c s) = Some (CheckoutForm (f\<lparr>inputs := c\<rparr>))"
  by (simp add: fill_form_def)

lemma overlay_fill_card:
  "overlay s = Some (CheckoutForm f) \<Longrightarrow> card f = Some k' \<Longrightarrow>
   overlay (fill_card k s) = Some (CheckoutForm (f\<lparr>card := Some k\<rparr>))"
  by (simp add: fill_card_def)

text \<open>A valid e-mail address is not empty and has an \<open>@\<close>.\<close>

lemma split_on_without: "c \<notin> set e \<Longrightarrow> split_on c e = [e]"
  by (induction e) auto

lemma valid_email_address_has_at:
  assumes "valid_email_address e"
  shows "e \<noteq> [] \<and> CHR ''@'' \<in> set e"
proof -
  have "split_on (CHR ''@'') e \<noteq> [e]"
    using assms by (auto simp add: valid_email_address_def split: list.splits)
  then have "CHR ''@'' \<in> set e"
    using split_on_without by blast
  then show ?thesis by auto
qed

lemma invalid_email_is_reported:
  "\<not> email_readonly f \<Longrightarrow> email (inputs f) = [] \<or> CHR ''@'' \<notin> set (email (inputs f)) \<Longrightarrow>
   invalid_controls f \<noteq> []"
  using valid_email_address_has_at [of "email (inputs f)"]
  by (auto simp add: invalid_controls_def invalid_text_inputs_def)

lemma valid_form_has_email:
  "invalid_controls f = [] \<Longrightarrow> \<not> email_readonly f \<Longrightarrow>
   email (inputs f) \<noteq> [] \<and> CHR ''@'' \<in> set (email (inputs f))"
  using invalid_email_is_reported [of f] by blast

text \<open>What a click does.\<close>

lemma click_submit_valid:
  "overlay s = Some (CheckoutForm f) \<Longrightarrow> \<not> btn_disabled f \<Longrightarrow> invalid_controls f = [] \<Longrightarrow>
   click_submit listener s = listener s"
  by (simp add: click_submit_def)

lemma click_submit_invalid:
  "overlay s = Some (CheckoutForm f) \<Longrightarrow> \<not> btn_disabled f \<Longrightarrow> invalid_controls f \<noteq> [] \<Longrightarrow>
   click_submit listener s = s\<lparr>validity_reports := validity_reports s @ take 1 (invalid_controls f)\<rparr>"
  by (simp add: click_submit_def)

text \<open>What the redirect handler does on a form it accepts.\<close>

lemma submit_checkout_form_valid:
  assumes "overlay s = Some (CheckoutForm f)" and "\<not> btn_disabled f"
    and "email (inputs f) \<noteq> []" and "CHR ''@'' \<in> set (email (inputs f))" and "db_defined s"
  shows "submit_checkout_form t n r s =
     s\<lparr>overlay := Some (CheckoutForm (f\<lparr>btn_disabled := True\<rparr>)),
       localStorage := (localStorage s)(pending_order_key \<mapsto>
          JSON_stringify (JObj [(''customer'', js_of_customer (inputs f)),
                                (''items'', js_of_items (items s)),
                                (''total'', JNum (getTotal s)),
                                (''timestamp'', JNum (of_nat t))])),
       sink := sink s @
          [CreateOrder
             \<lparr>order_id = ''ORD-'' @ slice_last 6 (nat_toString n) @ nat_toString r,
              customer_email = email (inputs f),
              amount = getTotal s,
              status = ''pending'',
              order_items = items s,
              shipping_address = address (inputs f) @ '', '' @ city (inputs f) @ '', '' @
                                 zip (inputs f) @ '', '' @ country (inputs f)\<rparr>],
       suspended := suspended s @
          [AwaitCreateOrder (inputs f) (''ORD-'' @ slice_last 6 (nat_toString n) @ nat_toString r)]\<rparr>"
  using assms
  by (simp add: submit_checkout_form_def processPayPalCheckout_def Let_def)

text \<open>
  C3, as amended. In the first cart manager, enter checkout on a non-empty cart; let any
  cart mutations run before the overlay is built and any others after it; fill in the form
  with values that pass the browser's validation and click the submit button, the database
  client being loaded. The summary on display is the one rendered from the cart as it was
  when the overlay was built, after the first mutations; the later ones do not alter it.
  The order handed to \<open>db.createOrder\<close> carries the line items and the total of the cart as
  it is at submission, after all the mutations.
\<close>

theorem order_is_built_from_live_cart:
  assumes "items s \<noteq> []" and "invalid_text_inputs False c = []" and "db_defined s"
  shows "overlay (fill_form c (run_ops ms2 (showCheckoutModal_resume (run_ops ms1 (checkout s))))) =
           Some (CheckoutForm
             \<lparr>summary = map render_row (items (run_ops ms1 (checkout s))),
              summary_total = ''$'' @ toFixed0 (getTotal (run_ops ms1 (checkout s))),
              inputs = c, email_readonly = False, card = None, btn_disabled = False\<rparr>) \<and>
         sink (click_checkout_submit t n r
                 (fill_form c (run_ops ms2 (showCheckoutModal_resume (run_ops ms1 (checkout s)))))) =
           sink s @
           [CreateOrder
              \<lparr>order_id = ''ORD-'' @ slice_last 6 (nat_toString n) @ nat_toString r,
               customer_email = email c,
               amount = getTotal (run_ops ms2 (showCheckoutModal_resume (run_ops ms1 (checkout s)))),
               status = ''pending'',
               order_items = items (run_ops ms2 (showCheckoutModal_resume (run_ops ms1 (checkout s)))),
               shipping_address = address c @ '', '' @ city c @ '', '' @ zip c @ '', '' @ country c\<rparr>]"
proof -
  let ?s1 = "run_ops ms1 (checkout s)"
  let ?s2 = "run_ops ms2 (showCheckoutModal_resume ?s1)"
  let ?f = "checkout_markup None ?s1"
  have "AwaitDependencies \<in> set (suspended ?s1)"
    using assms(1) by (simp add: suspended_checkout)
  then have "overlay ?s2 = Some (CheckoutForm ?f)"
    by (simp add: overlay_showCheckoutModal_resume)
  then have ov: "overlay (fill_form c ?s2) = Some (CheckoutForm (?f\<lparr>inputs := c\<rparr>))"
    by (rule overlay_fill_form) (simp add: checkout_markup_def)
  have valid: "invalid_controls (?f\<lparr>inputs := c\<rparr>) = []"
    using assms(2) by (simp add: invalid_controls_def invalid_card_inputs_def checkout_markup_def)
  have enabled: "\<not> btn_disabled (?f\<lparr>inputs := c\<rparr>)"
    by (simp add: checkout_markup_def)
  have mail: "email c \<noteq> [] \<and> CHR ''@'' \<in> set (email c)"
    using valid_form_has_email [OF valid] by (simp add: checkout_markup_def)
  have "click_checkout_submit t n r (fill_form c ?s2) = submit_checkout_form t n r (fill_form c ?s2)"
    unfolding click_checkout_submit_def by (rule click_submit_valid [OF ov enabled valid])
  then have "sink (click_checkout_submit t n r (fill_form c ?s2)) =
           sink s @
           [CreateOrder
              \<lparr>order_id = ''ORD-'' @ slice_last 6 (nat_toString n) @ nat_toString r,
               customer_email = email c,
               amount = getTotal ?s2,
               status = ''pending'',
               order_items = items ?s2,
               shipping_address = address c @ '', '' @ city c @ '', '' @ zip c @ '', '' @ country c\<rparr>]"
    using mail assms(3) by (simp add: submit_checkout_form_valid [OF ov enabled])
  with ov show ?thesis by (simp add: checkout_markup_def)
qed

lemma two_line_cart_rest:
  "overlay two_line_cart = None" "sink two_line_cart = []" "suspended two_line_cart = []"
  "db_defined two_line_cart" "alerts two_line_cart = []" "localStorage two_line_cart pending_order_key = None"
  by (simp_all add: two_line_cart_def addItems_def addItem_def fresh_page_def showNotification_def Let_def
       updateCartUI_def saveToStorage_def pending_order_key_def cart_key_def)

lemma getTotal_two_line_cart: "getTotal two_line_cart = 230"
  by (simp add: getTotal_def items_two_line_cart)

lemma jane_is_valid: "invalid_text_inputs False jane = []"
  by code_simp

lemma text_evaluations:
  "toFixed0 110 = ''110''" "toFixed0 120 = ''120''" "toFixed0 230 = ''230''"
  "toFixed0 240 = ''240''" "toFixed0 350 = ''350''"
  "number_toString 1 = ''1''" "number_toString 2 = ''2''"
  by (simp_all add: toFixed0_def number_toString_def unsigned_toString_def nat_toString.simps digit_char_def)

lemma items_mutated_before:
  "items (run_ops [AddItem tech_cargo 1 None] (checkout two_line_cart)) =
     [\<lparr>item_id = IdNum 4, name = ''Boxy Tee'', price = 55, image_url = ''assets/pants/pants.png'',
       material = ''COTTON'', item_size = Some ''M'', quantity = 2\<rparr>,
      \<lparr>item_id = IdNum 2, name = ''Tech Cargo'', price = 120, image_url = ''assets/pants/pants.png'',
       material = ''NYLON'', item_size = None, quantity = 2\<rparr>]"
  by (simp add: run_ops_def items_addItem items_two_line_cart tech_cargo_def)

lemma items_mutated_after:
  "items (run_ops [RemoveItem 0] (showCheckoutModal_resume (run_ops [AddItem tech_cargo 1 None] (checkout two_line_cart)))) =
     [\<lparr>item_id = IdNum 2, name = ''Tech Cargo'', price = 120, image_url = ''assets/pants/pants.png'',
       material = ''NYLON'', item_size = None, quantity = 2\<rparr>]"
  by (simp add: run_ops_def removeItem_def splice1_def items_mutated_before [unfolded run_ops_def, simplified])

theorem order_is_built_from_live_cart_witness:
  "items two_line_cart \<noteq> [] \<and> invalid_text_inputs False jane = [] \<and> db_defined two_line_cart \<and>
   overlay (fill_form jane (run_ops [RemoveItem 0] (showCheckoutModal_resume
              (run_ops [AddItem tech_cargo 1 None] (checkout two_line_cart))))) =
     Some (CheckoutForm
       \<lparr>summary = [(''Boxy Tee (M) x2'', ''$110''), (''Tech Cargo  x2'', ''$240'')],
        summary_total = ''$350'', inputs = jane, email_readonly = False, card = None,
        btn_disabled = False\<rparr>) \<and>
   map call_lines (sink (click_checkout_submit 5 1234567 42
        (fill_form jane (run_ops [RemoveItem 0] (showCheckoutModal_resume
              (run_ops [AddItem tech_cargo 1 None] (checkout two_line_cart)))))))
     = [[(IdNum 2, None, 2)]] \<and>
   map call_amount (sink (click_checkout_submit 5 1234567 42
        (fill_form jane (run_ops [RemoveItem 0] (showCheckoutModal_resume
              (run_ops [AddItem tech_cargo 1 None] (checkout two_line_cart)))))))
     = [240]"
proof -
  have a: "items two_line_cart \<noteq> []" by (simp add: items_two_line_cart)
  have d: "db_defined two_line_cart" by (rule two_line_cart_rest)
  have g1: "getTotal (run_ops [AddItem tech_cargo 1 None] (checkout two_line_cart)) = 350"
    by (simp add: getTotal_def items_mutated_before)
  have g2: "getTotal (run_ops [RemoveItem 0] (showCheckoutModal_resume
              (run_ops [AddItem tech_cargo 1 None] (checkout two_line_cart)))) = 240"
    by (simp add: getTotal_def items_mutated_after)
  show ?thesis
    using order_is_built_from_live_cart [OF a jane_is_valid d,
        of "[RemoveItem 0]" "[AddItem tech_cargo 1 None]" 5 1234567 42] a d
    by (simp add: jane_is_valid two_line_cart_rest g1 g2 items_mutated_before items_mutated_after
        render_row_def text_evaluations)
qed

text \<open>
  Checkout is entered on a cart with a total of 230. When a line is added while the scripts
  load, the summary that is built then shows 350. When instead the overlay is built at once
  and shows two lines and 230, and the first line is removed while the overlay is open, the
  order submitted has the one remaining line and the amount 120.
\<close>

lemma overlay_jane_at_form: "overlay jane_at_form = Some (CheckoutForm jane_form)"
proof -
  have "AwaitDependencies \<in> set (suspended (checkout two_line_cart))"
    by (simp add: suspended_checkout items_two_line_cart)
  then have "overlay (showCheckoutModal_resume (checkout two_line_cart)) =
      Some (CheckoutForm (checkout_markup None (checkout two_line_cart)))"
    by (rule overlay_showCheckoutModal_resume)
  then have "overlay jane_at_form =
      Some (CheckoutForm ((checkout_markup None (checkout two_line_cart))\<lparr>inputs := jane\<rparr>))"
    unfolding jane_at_form_def by (rule overlay_fill_form) (simp add: checkout_markup_def)
  moreover have "getTotal (checkout two_line_cart) = 230"
    using getTotal_two_line_cart by (simp add: getTotal_def)
  ultimately show ?thesis
    by (simp add: jane_form_def checkout_markup_def items_two_line_cart render_row_def text_evaluations)
qed

lemma jane_at_form_rest:
  "items jane_at_form = items two_line_cart" "sink jane_at_form = []" "suspended jane_at_form = []"
  "db_defined jane_at_form" "alerts jane_at_form = []"
  by (simp_all add: jane_at_form_def two_line_cart_rest showCheckoutModal_resume_def
      suspended_checkout items_two_line_cart)

lemma jane_form_facts:
  "\<not> btn_disabled jane_form" "email (inputs jane_form) = ''jane@example.org''"
  "invalid_controls jane_form = []" "\<not> email_readonly jane_form"
  by (simp_all add: jane_form_def jane_def invalid_controls_def invalid_card_inputs_def
      jane_is_valid [unfolded jane_def])

theorem order_differs_from_summary:
  "getTotal two_line_cart = 230 \<and>
   map summary_total (case overlay (showCheckoutModal_resume
          (run_ops [AddItem tech_cargo 1 None] (checkout two_line_cart))) of
        Some (CheckoutForm f) \<Rightarrow> [f] | _ \<Rightarrow> []) = [''$350''] \<and>
   overlay (run_ops [RemoveItem 0] jane_at_form) = Some (CheckoutForm jane_form) \<and>
   summary jane_form = [(''Boxy Tee (M) x2'', ''$110''), (''Tech Cargo  x1'', ''$120'')] \<and>
   summary_total jane_form = ''$230'' \<and>
   map call_amount (sink (click_checkout_submit 5 1234567 42 (run_ops [RemoveItem 0] jane_at_form))) = [120] \<and>
   map call_lines (sink (click_checkout_submit 5 1234567 42 (run_ops [RemoveItem 0] jane_at_form)))
     = [[(IdNum 2, None, 1)]]"
proof -
  let ?s = "run_ops [RemoveItem 0] jane_at_form"
  have ov: "overlay ?s = Some (CheckoutForm jane_form)"
    by (simp add: overlay_jane_at_form)
  have it: "items ?s =
     [\<lparr>item_id = IdNum 2, name = ''Tech Cargo'', price = 120, image_url = ''assets/pants/pants.png'',
       material = ''NYLON'', item_size = None, quantity = 1\<rparr>]"
    by (simp add: run_ops_def removeItem_def splice1_def jane_at_form_rest items_two_line_cart)
  have g: "getTotal ?s = 120"
    by (simp add: getTotal_def it)
  have "click_checkout_submit 5 1234567 42 ?s = submit_checkout_form 5 1234567 42 ?s"
    unfolding click_checkout_submit_def
    by (rule click_submit_valid [OF ov jane_form_facts(1) jane_form_facts(3)])
  then have "sink (click_checkout_submit 5 1234567 42 ?s) =
      [CreateOrder
              \<lparr>order_id = ''ORD-'' @ slice_last 6 (nat_toString 1234567) @ nat_toString 42,
               customer_email = email jane,
               amount = 120,
               status = ''pending'',
               order_items = items ?s,
               shipping_address = address jane @ '', '' @ city jane @ '', '' @ zip jane @ '', '' @ country jane\<rparr>]"
    by (simp add: submit_checkout_form_valid [OF ov jane_form_facts(1)] jane_form_def jane_def g
        jane_at_form_rest)
  moreover have "overlay (showCheckoutModal_resume (run_ops [AddItem tech_cargo 1 None] (checkout two_line_cart))) =
      Some (CheckoutForm (checkout_markup None (run_ops [AddItem tech_cargo 1 None] (checkout two_line_cart))))"
    by (rule overlay_showCheckoutModal_resume) (simp add: suspended_checkout items_two_line_cart)
  moreover have "getTotal (run_ops [AddItem tech_cargo 1 None] (checkout two_line_cart)) = 350"
    by (simp add: getTotal_def items_mutated_before)
  ultimately show ?thesis
    using ov by (simp add: it jane_form_def getTotal_two_line_cart checkout_markup_def text_evaluations)
qed

lemma clear_rest [simp]:
  "overlay (clear s) = overlay s" "sink (clear s) = sink s" "suspended (clear s) = suspended s"
  "db_defined (clear s) = db_defined s" "alerts (clear s) = alerts s" "items (clear s) = []"
  "localStorage (clear s) = (localStorage s)(cart_key \<mapsto> JSON_stringify (js_of_items []))"
  by (simp_all add: clear_def localStorage_saveToStorage)

lemma keys_differ [simp]: "pending_order_key \<noteq> cart_key" "cart_key \<noteq> pending_order_key"
  by (simp_all add: pending_order_key_def cart_key_def)

lemma submit_checkout_form_invalid:
  assumes "overlay s = Some (CheckoutForm f)" and "\<not> btn_disabled f"
    and "email (inputs f) = [] \<or> CHR ''@'' \<notin> set (email (inputs f))"
  shows "submit_checkout_form t n r s = s\<lparr>alerts := alerts s @ [''Please enter a valid email address'']\<rparr>"
  using assms by (auto simp add: submit_checkout_form_def processPayPalCheckout_def Let_def)

lemma submit_checkout_form_no_db:
  assumes "overlay s = Some (CheckoutForm f)" and "\<not> btn_disabled f"
    and "email (inputs f) \<noteq> []" and "CHR ''@'' \<in> set (email (inputs f))" and "\<not> db_defined s"
  shows "submit_checkout_form t n r s =
     s\<lparr>localStorage := (localStorage s)(pending_order_key \<mapsto>
          JSON_stringify (JObj [(''customer'', js_of_customer (inputs f)),
                                (''items'', js_of_items (items s)),
                                (''total'', JNum (getTotal s)),
                                (''timestamp'', JNum (of_nat t))])),
       console := console s @ [''Checkout error:''],
       alerts := alerts s @ [''There was an error processing your order. Please try again.'']\<rparr>"
  using assms
  by (simp add: submit_checkout_form_def processPayPalCheckout_def Let_def catch_checkout_error_def)

text \<open>
  C5, as amended. Take a form that is shown with its button enabled and no handler running.
  With the handler that hands off to the hosted payment page, a submission that fails (the
  email check fails, the database client is not loaded, or \<open>db.createOrder\<close> rejects)
  leaves the line items and the text stored under the cart key as they were, and the form
  shown as it was with its button enabled; a submission that \<open>db.createOrder\<close> accepts
  empties the cart, stores the empty cart and shows the success screen. With the handler
  that simulates the payment, the submission empties the cart, stores the empty cart and
  shows the success screen whether \<open>db.createOrder\<close> accepts, rejects or cannot be called.
\<close>

theorem failed_submission_keeps_cart:
  assumes "overlay s = Some (CheckoutForm f)" and "\<not> btn_disabled f" and "suspended s = []"
  shows "(email (inputs f) = [] \<or> CHR ''@'' \<notin> set (email (inputs f)) \<or> \<not> db_defined s \<or> \<not> accepted \<longrightarrow>
            items (redirect_submission t n r accepted s) = items s \<and>
            localStorage (redirect_submission t n r accepted s) cart_key = localStorage s cart_key \<and>
            overlay (redirect_submission t n r accepted s) = Some (CheckoutForm f)) \<and>
         (email (inputs f) \<noteq> [] \<and> CHR ''@'' \<in> set (email (inputs f)) \<and> db_defined s \<and> accepted \<longrightarrow>
            items (redirect_submission t n r accepted s) = [] \<and>
            localStorage (redirect_submission t n r accepted s) cart_key = Some (JSON_stringify (js_of_items [])) \<and>
            overlay (redirect_submission t n r accepted s) =
              Some (SuccessScreen (''ORD-'' @ slice_last 6 (nat_toString n) @ nat_toString r) (email (inputs f)))) \<and>
         items (simulated_submission created n accepted s) = [] \<and>
         localStorage (simulated_submission created n accepted s) cart_key = Some (JSON_stringify (js_of_items [])) \<and>
         overlay (simulated_submission created n accepted s) =
           Some (SuccessScreen (''TH-'' @ slice_last 8 (nat_toString n)) (email (inputs f)))"
proof -
  have f_same: "f\<lparr>btn_disabled := False\<rparr> = f"
    using assms(2) by simp
  have invalid: "items (redirect_submission t n r accepted s) = items s \<and>
            localStorage (redirect_submission t n r accepted s) cart_key = localStorage s cart_key \<and>
            overlay (redirect_submission t n r accepted s) = Some (CheckoutForm f)"
    if "email (inputs f) = [] \<or> CHR ''@'' \<notin> set (email (inputs f))"
    using assms that
    by (simp add: redirect_submission_def submit_checkout_form_invalid [OF assms(1,2) that])
  have no_db: "items (redirect_submission t n r accepted s) = items s \<and>
            localStorage (redirect_submission t n r accepted s) cart_key = localStorage s cart_key \<and>
            overlay (redirect_submission t n r accepted s) = Some (CheckoutForm f)"
    if "email (inputs f) \<noteq> []" "CHR ''@'' \<in> set (email (inputs f))" "\<not> db_defined s"
    using assms
    by (simp add: redirect_submission_def submit_checkout_form_no_db [OF assms(1,2) that])
  have rejected: "items (redirect_submission t n r False s) = items s \<and>
            localStorage (redirect_submission t n r False s) cart_key = localStorage s cart_key \<and>
            overlay (redirect_submission t n r False s) = Some (CheckoutForm f)"
    if "email (inputs f) \<noteq> []" "CHR ''@'' \<in> set (email (inputs f))" "db_defined s"
    using assms f_same
    by (simp add: redirect_submission_def submit_checkout_form_valid [OF assms(1,2) that]
        processPayPalCheckout_resume_def catch_checkout_error_def Let_def)
  have accepted: "items (redirect_submission t n r True s) = [] \<and>
            localStorage (redirect_submission t n r True s) cart_key = Some (JSON_stringify (js_of_items [])) \<and>
            overlay (redirect_submission t n r True s) =
              Some (SuccessScreen (''ORD-'' @ slice_last 6 (nat_toString n) @ nat_toString r) (email (inputs f)))"
    if "email (inputs f) \<noteq> []" "CHR ''@'' \<in> set (email (inputs f))" "db_defined s"
    using assms
    by (simp add: redirect_submission_def submit_checkout_form_valid [OF assms(1,2) that]
        processPayPalCheckout_resume_def Let_def)
  have simulated: "items (simulated_submission created n accepted s) = [] \<and>
         localStorage (simulated_submission created n accepted s) cart_key = Some (JSON_stringify (js_of_items [])) \<and>
         overlay (simulated_submission created n accepted s) =
           Some (SuccessScreen (''TH-'' @ slice_last 8 (nat_toString n)) (email (inputs f)))"
    using assms
    by (simp add: simulated_submission_def submit_payment_form_def processPayment_def
        processPayment_after_delay_def processPayment_resume_def processPayment_finish_def Let_def)
  show ?thesis
    using invalid no_db rejected accepted simulated by (cases accepted) auto
qed


theorem failed_submission_witness:
  "overlay jane_at_form = Some (CheckoutForm jane_form) \<and> \<not> btn_disabled jane_form \<and>
   suspended jane_at_form = [] \<and>
   items (redirect_submission 5 1234567 42 False jane_at_form) = items jane_at_form \<and>
   localStorage (redirect_submission 5 1234567 42 False jane_at_form) cart_key =
     localStorage jane_at_form cart_key \<and>
   overlay (redirect_submission 5 1234567 42 False jane_at_form) = Some (CheckoutForm jane_form) \<and>
   email (inputs jane_form) \<noteq> [] \<and> CHR ''@'' \<in> set (email (inputs jane_form)) \<and>
   db_defined jane_at_form \<and>
   items (redirect_submission 5 1234567 42 True jane_at_form) = [] \<and>
   items jane_at_form \<noteq> []"
  using failed_submission_keeps_cart [OF overlay_jane_at_form jane_form_facts(1) jane_at_form_rest(3),
      of False 5 1234567 42]
    failed_submission_keeps_cart [OF overlay_jane_at_form jane_form_facts(1) jane_at_form_rest(3),
      of True 5 1234567 42]
  by (simp add: overlay_jane_at_form jane_form_facts jane_at_form_rest items_two_line_cart)

text \<open>
  The simulated payment with \<open>db.createOrder\<close> rejecting: the cart is emptied and the
  success screen is shown.
\<close>

lemma overlay_jane_at_payment_form: "overlay jane_at_payment_form = Some (CheckoutForm jane_payment_form)"
proof -
  have "overlay (checkout_sync two_line_cart) =
      Some (CheckoutForm (checkout_markup (Some empty_card) two_line_cart))"
    by (simp add: overlay_checkout_sync items_two_line_cart)
  then have "overlay (fill_form jane (checkout_sync two_line_cart)) =
      Some (CheckoutForm ((checkout_markup (Some empty_card) two_line_cart)\<lparr>inputs := jane\<rparr>))"
    by (rule overlay_fill_form) (simp add: checkout_markup_def)
  then have "overlay jane_at_payment_form =
      Some (CheckoutForm ((checkout_markup (Some empty_card) two_line_cart)\<lparr>inputs := jane, card := Some a_card\<rparr>))"
    unfolding jane_at_payment_form_def
    by (simp add: overlay_fill_card [where k' = empty_card] checkout_markup_def)
  then show ?thesis
    by (simp add: jane_payment_form_def jane_form_def checkout_markup_def items_two_line_cart
        getTotal_two_line_cart render_row_def text_evaluations)
qed

lemma jane_at_payment_form_rest:
  "items jane_at_payment_form = items two_line_cart" "sink jane_at_payment_form = []"
  "suspended jane_at_payment_form = []" "db_defined jane_at_payment_form"
  "alerts jane_at_payment_form = []"
  by (simp_all add: jane_at_payment_form_def two_line_cart_rest)

lemma jane_payment_form_facts:
  "\<not> btn_disabled jane_payment_form" "email (inputs jane_payment_form) = ''jane@example.org''"
  "invalid_controls jane_payment_form = []" "\<not> email_readonly jane_payment_form"
  "full_name (inputs jane_payment_form) = ''Jane Doe''"
  by (simp_all add: jane_payment_form_def jane_form_def jane_def invalid_controls_def
      invalid_card_inputs_def a_card_def jane_is_valid [unfolded jane_def])

theorem simulated_payment_clears_cart_on_sink_failure:
  "items jane_at_payment_form \<noteq> [] \<and>
   items (simulated_submission 7 1234567 False jane_at_payment_form) = [] \<and>
   localStorage (simulated_submission 7 1234567 False jane_at_payment_form) cart_key = Some ''[]'' \<and>
   overlay (simulated_submission 7 1234567 False jane_at_payment_form) =
     Some (SuccessScreen ''TH-1234567'' ''jane@example.org'')"
  using overlay_jane_at_payment_form
  by (simp add: simulated_submission_def submit_payment_form_def processPayment_def
      processPayment_after_delay_def processPayment_resume_def processPayment_finish_def Let_def
      jane_payment_form_facts jane_at_payment_form_rest items_two_line_cart js_of_items_def
      slice_last_def nat_toString.simps digit_char_def)

lemma resume_adds_no_order [simp]:
  "sink (processPayPalCheckout_resume fr acc s) = sink s"
  by (simp add: processPayPalCheckout_resume_def catch_checkout_error_def Let_def
      split: frame.splits option.splits checkout_overlay.splits)

lemma payment_resume_adds_no_order [simp]:
  "sink (processPayment_resume fr acc n s) = sink s"
  by (simp add: processPayment_resume_def processPayment_finish_def Let_def split: frame.splits)

text \<open>
  C6. Take a form that is shown with its button enabled, the database client loaded. After a
  first submission that reaches \<open>await db.createOrder(...)\<close>, a second \<open>submit\<close> changes
  nothing: the handler has disabled the button before its first \<open>await\<close>, and no \<open>submit\<close>
  event reaches the listener while the button is disabled. So the two submissions hand
  exactly one order to \<open>db.createOrder\<close>, and resuming the handler adds none. The same
  holds for the simulated payment, during its delay and while it awaits \<open>db.createOrder\<close>.
\<close>

theorem second_submit_is_noop:
  assumes "overlay s = Some (CheckoutForm f)" and "\<not> btn_disabled f" and "db_defined s"
  shows "(email (inputs f) \<noteq> [] \<and> CHR ''@'' \<in> set (email (inputs f)) \<longrightarrow>
            submit_checkout_form t' n' r' (submit_checkout_form t n r s) = submit_checkout_form t n r s \<and>
            length (sink (submit_checkout_form t' n' r' (submit_checkout_form t n r s))) = length (sink s) + 1 \<and>
            sink (processPayPalCheckout_resume fr acc (submit_checkout_form t' n' r' (submit_checkout_form t n r s)))
              = sink (submit_checkout_form t n r s)) \<and>
         submit_payment_form (submit_payment_form s) = submit_payment_form s \<and>
         submit_payment_form (processPayment_after_delay created n (submit_payment_form s)) =
           processPayment_after_delay created n (submit_payment_form s) \<and>
         length (sink (processPayment_after_delay created n (submit_payment_form (submit_payment_form s))))
           = length (sink s) + 1 \<and>
         sink (processPayment_resume fr' acc' n'
                 (processPayment_after_delay created n (submit_payment_form (submit_payment_form s))))
           = sink (processPayment_after_delay created n (submit_payment_form s))"
proof -
  have redirect: "submit_checkout_form t' n' r' (submit_checkout_form t n r s) = submit_checkout_form t n r s \<and>
            length (sink (submit_checkout_form t n r s)) = length (sink s) + 1"
    if "email (inputs f) \<noteq> []" "CHR ''@'' \<in> set (email (inputs f))"
    unfolding submit_checkout_form_valid [OF assms(1,2) that assms(3)]
    by (simp add: submit_checkout_form_def)
  have twice: "submit_payment_form (submit_payment_form s) = submit_payment_form s"
    using assms by (simp add: submit_payment_form_def processPayment_def)
  have delay: "submit_payment_form (processPayment_after_delay created n (submit_payment_form s)) =
           processPayment_after_delay created n (submit_payment_form s) \<and>
         length (sink (processPayment_after_delay created n (submit_payment_form s))) = length (sink s) + 1"
    using assms
    by (simp add: submit_payment_form_def processPayment_def processPayment_after_delay_def Let_def)
  show ?thesis
    using redirect twice delay by simp
qed

theorem second_submit_witness:
  "overlay jane_at_form = Some (CheckoutForm jane_form) \<and> \<not> btn_disabled jane_form \<and>
   db_defined jane_at_form \<and>
   email (inputs jane_form) \<noteq> [] \<and> CHR ''@'' \<in> set (email (inputs jane_form)) \<and>
   submit_checkout_form 9 1234999 7 (submit_checkout_form 5 1234567 42 jane_at_form) =
     submit_checkout_form 5 1234567 42 jane_at_form \<and>
   length (sink (submit_checkout_form 9 1234999 7 (submit_checkout_form 5 1234567 42 jane_at_form))) = 1 \<and>
   overlay jane_at_payment_form = Some (CheckoutForm jane_payment_form) \<and>
   \<not> btn_disabled jane_payment_form \<and> db_defined jane_at_payment_form \<and>
   submit_payment_form (submit_payment_form jane_at_payment_form) = submit_payment_form jane_at_payment_form \<and>
   length (sink (processPayment_after_delay 7 1234567
      (submit_payment_form (submit_payment_form jane_at_payment_form)))) = 1"
  using second_submit_is_noop [OF overlay_jane_at_form jane_form_facts(1) jane_at_form_rest(4),
      where t = 5 and n = 1234567 and r = 42 and t' = 9 and n' = 1234999 and r' = 7 and created = 7]
    second_submit_is_noop [OF overlay_jane_at_payment_form jane_payment_form_facts(1)
      jane_at_payment_form_rest(4),
      where t = 5 and n = 1234567 and r = 42 and t' = 9 and n' = 1234999 and r' = 7 and created = 7]
  by (auto simp add: overlay_jane_at_form jane_form_facts jane_at_form_rest
      overlay_jane_at_payment_form jane_payment_form_facts jane_at_payment_form_rest)

text \<open>
  The guard is the disabled button alone: called directly a second time, the handler builds
  a second order.
\<close>

lemma handler_has_no_guard_of_its_own:
  "length (sink (processPayPalCheckout 9 1234999 7 (processPayPalCheckout 5 1234567 42 jane_at_form))) = 2"
  using overlay_jane_at_form
  by (simp add: processPayPalCheckout_def Let_def jane_form_facts jane_at_form_rest)

section \<open>The email check\<close>

text \<open>
  In the first cart manager an order is built only for an email address that is not empty
  and has an \<open>@\<close>, whatever raised the \<open>submit\<close> event: the handler reads the form and
  checks the address before its first \<open>await\<close>.
\<close>

lemma redirect_order_needs_email:
  assumes "sink (submit_checkout_form t n r s) \<noteq> sink s"
  shows "\<exists>f. overlay s = Some (CheckoutForm f) \<and> email (inputs f) \<noteq> [] \<and>
             CHR ''@'' \<in> set (email (inputs f)) \<and>
             map call_email (sink (submit_checkout_form t n r s)) = map call_email (sink s) @ [email (inputs f)]"
  using assms
  by (auto simp add: submit_checkout_form_def processPayPalCheckout_def Let_def
      catch_checkout_error_def split: option.splits checkout_overlay.splits if_splits)

lemma click_redirect_order_needs_email:
  assumes "sink (click_checkout_submit t n r s) \<noteq> sink s"
  shows "\<exists>f. overlay s = Some (CheckoutForm f) \<and> email (inputs f) \<noteq> [] \<and>
             CHR ''@'' \<in> set (email (inputs f))"
proof -
  from assms have "sink (submit_checkout_form t n r s) \<noteq> sink s"
    by (auto simp add: click_checkout_submit_def click_submit_def
        split: option.splits checkout_overlay.splits if_splits)
  from redirect_order_needs_email [OF this] show ?thesis by blast
qed

text \<open>
  A click with an email address that is empty or has no \<open>@\<close> builds no order in either cart
  manager and leaves the form as it is. The browser stops it with its report at the first
  control that is not valid; when the address has been locked by the profile pre-fill, the
  browser does not validate it, and the first cart manager's handler stops the submission
  with its alert.
\<close>

lemma click_with_bad_email_is_reported:
  assumes "overlay s = Some (CheckoutForm f)" and "\<not> btn_disabled f" and "\<not> email_readonly f"
    and "email (inputs f) = [] \<or> CHR ''@'' \<notin> set (email (inputs f))"
  shows "click_checkout_submit t n r s =
           s\<lparr>validity_reports := validity_reports s @ take 1 (invalid_controls f)\<rparr>"
    and "click_payment_submit s =
           s\<lparr>validity_reports := validity_reports s @ take 1 (invalid_controls f)\<rparr>"
    and "take 1 (invalid_controls f) \<noteq> []"
  using assms invalid_email_is_reported [OF assms(3,4)]
  by (simp_all add: click_checkout_submit_def click_payment_submit_def click_submit_invalid)

lemma click_with_locked_bad_email_is_alerted:
  assumes "overlay s = Some (CheckoutForm f)" and "\<not> btn_disabled f" and "invalid_controls f = []"
    and "email (inputs f) = [] \<or> CHR ''@'' \<notin> set (email (inputs f))"
  shows "click_checkout_submit t n r s =
           s\<lparr>alerts := alerts s @ [''Please enter a valid email address'']\<rparr>"
  using assms
  by (simp add: click_checkout_submit_def click_submit_valid submit_checkout_form_invalid)

lemma overlay_locked_at_form:
  "overlay locked_at_form =
     Some (CheckoutForm (jane_form\<lparr>inputs := jane\<lparr>email := ''jane.example.org''\<rparr>, email_readonly := True\<rparr>))"
proof -
  have "AwaitDependencies \<in> set (suspended (checkout two_line_cart))"
    by (simp add: suspended_checkout items_two_line_cart)
  then have "overlay (showCheckoutModal_resume (checkout two_line_cart)) =
      Some (CheckoutForm (checkout_markup None (checkout two_line_cart)))"
    by (rule overlay_showCheckoutModal_resume)
  moreover have "getTotal (checkout two_line_cart) = 230"
    using getTotal_two_line_cart by (simp add: getTotal_def)
  ultimately show ?thesis
    by (simp add: locked_at_form_def prefill_profile_def two_line_cart_rest jane_form_def jane_def
        checkout_markup_def empty_fields_def items_two_line_cart render_row_def text_evaluations)
qed

lemma locked_bad_email_is_alerted:
  "alerts (click_checkout_submit 5 1234567 42 locked_at_form) = [''Please enter a valid email address''] \<and>
   sink (click_checkout_submit 5 1234567 42 locked_at_form) = [] \<and>
   overlay (click_checkout_submit 5 1234567 42 locked_at_form) = overlay locked_at_form"
proof -
  let ?f = "jane_form\<lparr>inputs := jane\<lparr>email := ''jane.example.org''\<rparr>, email_readonly := True\<rparr>"
  have v: "invalid_controls ?f = []"
    by (simp add: invalid_controls_def invalid_text_inputs_def invalid_card_inputs_def jane_form_def jane_def)
  have e: "\<not> btn_disabled ?f" by (simp add: jane_form_def)
  have m: "email (inputs ?f) = [] \<or> CHR ''@'' \<notin> set (email (inputs ?f))" by simp
  have r: "alerts locked_at_form = []" "sink locked_at_form = []"
    by (simp_all add: locked_at_form_def two_line_cart_rest)
  show ?thesis
    unfolding click_with_locked_bad_email_is_alerted [OF overlay_locked_at_form e v m]
    by (simp add: r)
qed

text \<open>
  In the second cart manager a click with valid values starts the handler, which reads the
  email input only when its simulated delay has elapsed and hands it to \<open>db.createOrder\<close>
  as it is then.
\<close>

lemma payment_order_carries_email_after_delay:
  assumes "overlay s = Some (CheckoutForm f)" and "\<not> btn_disabled f" and "invalid_controls f = []"
    and "db_defined s"
  shows "map call_email (sink (processPayment_after_delay created n (fill_form c (click_payment_submit s)))) =
           map call_email (sink s) @ [if email_readonly f then email (inputs f) else email c]"
    and "map call_email (sink (processPayment_after_delay created n (click_payment_submit s))) =
           map call_email (sink s) @ [email (inputs f)]"
  using assms
  by (simp_all add: click_payment_submit_def click_submit_valid submit_payment_form_def
      processPayment_def fill_form_def processPayment_after_delay_def Let_def)

text \<open>
  C7. An order is to be built only for an email address that is not empty and has an
  \<open>@\<close>. The second cart manager builds one for an address without \<open>@\<close>: the form is
  filled in with valid values, the email address being \<open>jane@example.org\<close>, and the submit
  button is clicked; the browser's validation passes and \<open>processPayment\<close> starts its
  simulated delay. During the delay the email input, which stays editable, is changed to
  \<open>jane.example.org\<close>. When the delay has elapsed the handler reads the input and hands
  \<open>db.createOrder\<close> an order for \<open>jane.example.org\<close>.
\<close>

theorem edited_email_reaches_order:
  "invalid_controls jane_payment_form = [] \<and>
   overlay jane_at_payment_form = Some (CheckoutForm jane_payment_form) \<and>
   sink (click_payment_submit jane_at_payment_form) = [] \<and>
   map call_email (sink (processPayment_after_delay 7 1234567
      (fill_form (jane\<lparr>email := ''jane.example.org''\<rparr>) (click_payment_submit jane_at_payment_form))))
     = [''jane.example.org''] \<and>
   CHR ''@'' \<notin> set ''jane.example.org''"
proof -
  have "sink (click_payment_submit jane_at_payment_form) = []"
    using overlay_jane_at_payment_form
    by (simp add: click_payment_submit_def click_submit_def jane_payment_form_facts
        submit_payment_form_def processPayment_def jane_at_payment_form_rest)
  then show ?thesis
    using payment_order_carries_email_after_delay(1) [OF overlay_jane_at_payment_form
        jane_payment_form_facts(1) jane_payment_form_facts(3) jane_at_payment_form_rest(4),
        of 7 1234567 "jane\<lparr>email := ''jane.example.org''\<rparr>"]
    by (simp add: overlay_jane_at_payment_form jane_payment_form_facts jane_at_payment_form_rest)
qed

end
